theory Spec2Isabelle
  imports Main "HOL-Library.AList"
begin

section \<open>Data model of static/api_import_common.js\<close>

text \<open>
  The module keeps its state in closure variables (\<open>apiData\<close>, \<open>mappingData\<close>,
  \<open>previewData\<close>, \<open>allConfigs\<close>, \<open>configToDelete\<close>) and in the DOM. A JavaScript
  object is modelled as an association list from property names to values, in the order
  of \<open>Object.entries\<close>; a well-formed object has distinct keys. A value that may be
  \<open>null\<close> or \<open>undefined\<close> is an \<open>option\<close>, with \<open>None\<close> for both.
  Raw records are plain JSON objects: \<open>row.hasOwnProperty(f)\<close> is membership of \<open>f\<close>
  among the record's own keys and \<open>row[f]\<close> is the lookup of an own key, and
  \<open>mapped[k] = v\<close> creates or overwrites the own property \<open>k\<close>. Two inputs behave
  otherwise in JavaScript and are outside these definitions: a raw record with an own
  field that is itself named \<open>hasOwnProperty\<close> shadows the method, so that the call
  throws a TypeError; and an assignment to the key \<open>__proto__\<close> of an object literal
  sets its prototype and creates no own property. The theorems that state what the
  engine computes (claims C1 and C2) exclude both by hypothesis.
\<close>

datatype json =
    JNull
  | JBool bool
  | JNum int
  | JStr string
  | JArr "json list"
  | JObj "(string \<times> json) list"

type_synonym 'v obj = "(string \<times> 'v) list"

type_synonym row = "json obj"

text \<open>A mapping sends a canonical (WMS) field key to an external field name or \<open>null\<close>.\<close>

type_synonym mapping = "(string option) obj"

definition hasOwnProperty :: "'v obj \<Rightarrow> string \<Rightarrow> bool" where
  "hasOwnProperty ob key \<longleftrightarrow> key \<in> fst ` set ob"

text \<open>
  JavaScript truthiness of a string-or-null value: \<open>null\<close>, \<open>undefined\<close> and the
  empty string are falsy, every other string is truthy.
\<close>

fun truthy :: "string option \<Rightarrow> bool" where
  "truthy None = False"
| "truthy (Some s) = (s \<noteq> [])"

text \<open>\<open>value || null\<close> on a string.\<close>

definition or_null :: "string \<Rightarrow> string option" where
  "or_null v = (if v \<noteq> [] then Some v else None)"

section \<open>Mapping engine\<close>

text \<open>
  Lines 413-421 (\<open>reprocessPreviewWithMapping\<close>) and 452-460 (\<open>handleConfirmImport\<close>)
  hold the same arrow function:
  \<^verbatim>\<open>
  row => {
    const mapped = {};
    for (const [wmsField, apiField] of Object.entries(mappingData)) {
      if (apiField && row.hasOwnProperty(apiField)) {
        mapped[wmsField] = row[apiField];
      }
    }
    return mapped;
  }
  \<close>
  \<open>assignField\<close> is one iteration of the loop, \<open>mapRow\<close> the whole arrow function.
  The guard \<open>apiField && ...\<close> is false for \<open>null\<close> and for the empty string.
  \<open>mapped[wmsField] = v\<close> overwrites an existing property in place and appends a new
  one, which is \<open>AList.update\<close>.
\<close>

fun assignField :: "'v obj \<Rightarrow> string \<times> string option \<Rightarrow> 'v obj \<Rightarrow> 'v obj" where
  "assignField row (wmsField, None) mapped = mapped"
| "assignField row (wmsField, Some apiField) mapped =
     (if apiField \<noteq> [] \<and> hasOwnProperty row apiField
      then (case map_of row apiField of
              Some v \<Rightarrow> AList.update wmsField v mapped
            | None \<Rightarrow> mapped)
      else mapped)"

definition mapRow :: "mapping \<Rightarrow> 'v obj \<Rightarrow> 'v obj" where
  "mapRow mappingData row = fold (assignField row) mappingData []"

text \<open>\<open>apiData.map(row => ...)\<close>, as both call sites write it.\<close>

definition applyMapping :: "'v obj list \<Rightarrow> mapping \<Rightarrow> 'v obj list" where
  "applyMapping rawRows mappingData = map (mapRow mappingData) rawRows"

section \<open>Module state, requests and responses\<close>

text \<open>
  The user-facing texts of the module are Thai string literals; each literal is one
  constructor of \<open>message\<close>, named after what it says. \<open>Text\<close> carries a text that
  comes from the backend (\<open>result.error\<close>) or from the runtime (\<open>error.message\<close> of a
  rejected \<open>fetch\<close>), \<open>TypeErrorText\<close> is the runtime's text for reading a property of
  \<open>null\<close> or \<open>undefined\<close>.
\<close>

datatype message =
    PreviewModalNotReady
  | EnterApiUrl
  | FetchFailedDefault
  | NoMappingData
  | NoDataToImport
  | SelectPlatform
  | EnterShopName
  | ConfirmImportPrompt nat
  | ImportFailedDefault
  | Imported "int option"
  | ErrorPrefix message
  | ManageModalNotReady
  | FailedToLoadConfigs
  | ConfigLoaded string
  | LoadConfigFailed
  | ShopNameBeforeSave
  | PlatformBeforeSave
  | ApiUrlBeforeSave
  | SaveFailedDefault
  | ViewConfigFailed
  | PrepareDeleteFailed
  | ConfigToDeleteMissing
  | ConfigDeleted string
  | DeleteFailedDefault
  | TypeErrorText
  | BackendMessage "string option"
  | Text string

text \<open>\<open>result.error || 'default text'\<close>.\<close>

fun or_default :: "string option \<Rightarrow> message \<Rightarrow> message" where
  "or_default None d = d"
| "or_default (Some s) d = (if s \<noteq> [] then Text s else d)"

record saved_config =
  cfg_id :: int
  module_type :: "string option"
  config_name :: string
  cfg_platform :: "string option"
  cfg_shop_name :: "string option"
  cfg_api_url :: string
  cfg_data_path :: string
  cfg_api_key :: string

record form_data =
  api_url :: string
  data_path :: string
  api_key :: string
  platform :: string
  shop_name :: string
  use_cache :: bool

record import_body =
  imp_platform :: string
  imp_shop_name :: string
  imp_data :: "row list"
  imp_mapping :: mapping

text \<open>
  A request as \<open>fetch\<close> sends it. The body of the preview request is
  \<open>JSON.stringify(formData)\<close>: the six fields of \<open>form_data\<close> and nothing else.
\<close>

record config_draft =
  new_module_type :: string
  new_config_name :: string
  new_shop_name :: "string option"
  new_platform :: "string option"
  new_api_url :: string
  new_data_path :: string
  new_api_key :: string

datatype request =
    PostPreview form_data
  | PostImport import_body
  | GetConfigs
  | GetConfig int
  | PostConfig config_draft
  | DeleteConfig int

text \<open>
  The parsed JSON body of a response, with the properties the module reads; a property
  that is missing reads as \<open>undefined\<close>, here \<open>None\<close> (\<open>False\<close> for the flags, which
  are only tested for truthiness).
\<close>

record body =
  res_error :: "string option"
  res_data :: "row list option"
  res_mapping :: "mapping option"
  res_preview :: "row list option"
  res_total_rows :: "int option"
  res_from_cache :: bool
  res_cache_expires :: "string option"
  res_imported :: "int option"
  res_import_date :: "string option"
  res_success :: bool
  res_message :: "string option"
  res_configs :: "saved_config list option"
  res_config :: "saved_config option"

text \<open>
  How one \<open>await fetch(...)\<close> followed by \<open>await response.json()\<close> ends: the fetch
  promise rejects (network failure), or the body is not JSON, or a body arrives together
  with \<open>response.ok\<close>. The string is \<open>error.message\<close>.
\<close>

datatype outcome =
    Rejected string
  | Unparsable bool string
  | Reply bool body

record config =
  moduleType :: string
  displayFields :: "string list"
  wmsFields :: "string list"
  requirePlatform :: bool
  requireShopName :: bool
  redirectUrl :: "string option"

text \<open>
  An \<open>async\<close> function that reaches an \<open>await\<close> on a network call leaves a continuation
  waiting for the response: the rest of the function. There is one constructor for each
  such \<open>await\<close> of the module. \<open>confirmDeleteConfig\<close> has three on its successful path
  (the DELETE call, \<open>loadConfigsTable()\<close> and \<open>loadSavedConfigs()\<close>); the two reload
  functions are also called on their own, with nothing after them.
\<close>

datatype continuation =
    K_fetchAndPreview
  | K_handleConfirmImport
  | K_loadSavedConfigs
  | K_loadConfigsTable
  | K_handleConfigSelect
  | K_handleSaveConfig
  | K_handleViewConfig
  | K_handleDeleteConfig
  | K_confirmDelete_deleted
  | K_confirmDelete_tableLoaded
  | K_confirmDelete_listLoaded

datatype table_view =
    TableUntouched
  | TableLoading
  | TableEmpty
  | TableRows "saved_config list"
  | TableError message

text \<open>
  The closure variables of the module (lines 49-70) and the parts of the page it writes.
  \<open>previewModal\<close> and \<open>manageConfigsModal\<close> say whether \<open>init\<close> could create the
  modal object (the code tests both before use); the other elements the module looks
  up are taken to exist. \<open>sent\<close> logs every \<open>fetch\<close> call in order, \<open>alerts\<close> every
  \<open>alert\<close> and \<open>confirm\<close> dialog. \<open>awaiting\<close> holds the continuations that wait for
  a response, each with the request it waits for, the oldest first.
\<close>

record state =
  config :: config
  apiData :: "row list option"
  mappingData :: "mapping option"
  previewData :: "row list option"
  allConfigs :: "saved_config list"
  configToDelete :: "saved_config option"
  previewModal :: bool
  manageConfigsModal :: bool
  btnConfirmImport_disabled :: bool
  btnConfirmDelete_disabled :: bool
  previewModal_shown :: bool
  previewLoading :: bool
  previewContent :: bool
  previewError :: "message option"
  mappingInfo :: "(string \<times> string) list"
  previewTableBody :: "row list"
  previewSummary :: "(int option \<times> bool) option"
  mappingFormFields :: "(string \<times> string list) list"
  editMappingModal_shown :: bool
  manageConfigsModal_shown :: bool
  configsTable :: table_view
  viewConfigContent :: "saved_config option"
  deleteConfigShown :: "saved_config option"
  deleteConfigModal_shown :: bool
  location_href :: "string option"
  sent :: "request list"
  alerts :: "message list"
  awaiting :: "(continuation \<times> request) list"

section \<open>Preview/cache controller\<close>

definition alert :: "message \<Rightarrow> state \<Rightarrow> state" where
  "alert m st = st\<lparr>alerts := alerts st @ [m]\<rparr>"

text \<open>\<open>await fetch(...)\<close>: the request goes out and the continuation \<open>k\<close> waits for it.\<close>

definition send :: "request \<Rightarrow> continuation \<Rightarrow> state \<Rightarrow> state" where
  "send r k st = st\<lparr>sent := sent st @ [r], awaiting := awaiting st @ [(k, r)]\<rparr>"

text \<open>
  \<open>displayPreview(result)\<close>, lines 286-339. \<open>Object.entries(result.mapping)\<close> and
  \<open>result.preview.slice(0, 10)\<close> throw a TypeError on \<open>null\<close>/\<open>undefined\<close>; the flag
  of the result says that the function threw, after the writes made so far. The cells of
  the table are read off the first ten rows by \<open>config.displayFields\<close>.
\<close>

definition displayPreview ::
  "mapping option \<Rightarrow> row list option \<Rightarrow> int option \<Rightarrow> bool \<Rightarrow> state \<Rightarrow> state \<times> bool" where
  "displayPreview r_mapping r_preview r_total r_from_cache st =
     (case r_mapping of
        None \<Rightarrow> (st, True)
      | Some m \<Rightarrow>
          let st1 = st\<lparr>mappingInfo := [(apiField, wmsField). (wmsField, Some apiField) \<leftarrow> m, apiField \<noteq> []]\<rparr>
          in (case r_preview of
                None \<Rightarrow> (st1, True)
              | Some p \<Rightarrow>
                  (st1\<lparr>previewTableBody := take 10 p,
                       previewSummary := Some (r_total, r_from_cache)\<rparr>, False)))"

text \<open>
  \<open>fetchAndPreview(formData)\<close>, lines 239-283, split at its \<open>await\<close>: \<open>_start\<close> runs up
  to the \<open>fetch\<close> call, \<open>_resume\<close> is the continuation that receives the response. The
  continuation reads nothing of the request it belongs to.
\<close>

definition fetchAndPreview_start :: "form_data \<Rightarrow> state \<Rightarrow> state" where
  "fetchAndPreview_start formData st =
     (if \<not> previewModal st then alert PreviewModalNotReady st
      else send (PostPreview formData) K_fetchAndPreview
             (st\<lparr>previewLoading := True, previewError := None, previewContent := False,
                 previewModal_shown := True\<rparr>))"

definition preview_catch :: "message \<Rightarrow> state \<Rightarrow> state" where
  "preview_catch m st = st\<lparr>previewError := Some m, previewLoading := False\<rparr>"

definition fetchAndPreview_resume :: "outcome \<Rightarrow> state \<Rightarrow> state" where
  "fetchAndPreview_resume out st =
     (case out of
        Rejected msg \<Rightarrow> preview_catch (Text msg) st
      | Unparsable ok msg \<Rightarrow> preview_catch (Text msg) st
      | Reply ok result \<Rightarrow>
          if \<not> ok then preview_catch (or_default (res_error result) FetchFailedDefault) st
          else
            let st1 = st\<lparr>apiData := res_data result,
                          mappingData := res_mapping result,
                          previewData := res_preview result\<rparr>;
                (st2, threw) = displayPreview (res_mapping result) (res_preview result)
                                 (res_total_rows result) (res_from_cache result) st1
            in if threw then preview_catch TypeErrorText st2
               else st2\<lparr>previewLoading := False, previewContent := True\<rparr>)"

definition handleFetchPreview :: "bool \<Rightarrow> form_data \<Rightarrow> state \<Rightarrow> state" where
  "handleFetchPreview formValid inputs st =
     (if \<not> formValid then st else fetchAndPreview_start (inputs\<lparr>use_cache := False\<rparr>) st)"

definition handlePreviewCache :: "form_data \<Rightarrow> state \<Rightarrow> state" where
  "handlePreviewCache inputs st =
     (if api_url inputs = [] then alert EnterApiUrl st
      else fetchAndPreview_start (inputs\<lparr>use_cache := True\<rparr>) st)"

section \<open>Mapping editor\<close>

definition handleEditMapping :: "state \<Rightarrow> state" where
  "handleEditMapping st =
     (case mappingData st of
        None \<Rightarrow> alert NoMappingData st
      | Some m \<Rightarrow>
          let apiFields = (case apiData st of Some (r # rs) \<Rightarrow> map fst r | _ \<Rightarrow> [])
          in st\<lparr>mappingFormFields := map (\<lambda>key. (key, apiFields)) (wmsFields (config st)),
                editMappingModal_shown := True\<rparr>)"

text \<open>\<open>key.replace('mapping_', '')\<close>: the first occurrence of the pattern is removed.\<close>

fun replace_first :: "string \<Rightarrow> string \<Rightarrow> string" where
  "replace_first pat [] = []"
| "replace_first pat (c # cs) =
     (if take (length pat) (c # cs) = pat then drop (length pat) (c # cs)
      else c # replace_first pat cs)"

text \<open>
  Lines 387-391: the loop over \<open>formData.entries()\<close> that builds \<open>newMapping\<close>. An entry
  is the name of a form control and its value.
\<close>

definition newMapping :: "(string \<times> string) list \<Rightarrow> mapping" where
  "newMapping entries =
     fold (\<lambda>(key, v) m. AList.update (replace_first ''mapping_'' key) (or_null v) m) entries []"

definition reprocessPreviewWithMapping :: "state \<Rightarrow> state" where
  "reprocessPreviewWithMapping st =
     (case (apiData st, mappingData st) of
        (Some rows, Some m) \<Rightarrow> st\<lparr>previewData := Some (applyMapping rows m)\<rparr>
      | _ \<Rightarrow> st)"

text \<open>
  \<open>handleSaveMapping\<close>, lines 380-407. \<open>previewData.length\<close> throws when \<open>previewData\<close>
  is \<open>null\<close>; nothing catches it, and the writes made before it stay.
\<close>

definition handleSaveMapping :: "(string \<times> string) list \<Rightarrow> state \<Rightarrow> state" where
  "handleSaveMapping entries st =
     (let st1 = reprocessPreviewWithMapping (st\<lparr>mappingData := Some (newMapping entries)\<rparr>);
          st2 = st1\<lparr>editMappingModal_shown := False\<rparr>
      in case previewData st2 of
           None \<Rightarrow> st2
         | Some p \<Rightarrow> fst (displayPreview (mappingData st2) (Some p) (Some (int (length p))) True st2))"

section \<open>Import committer\<close>

text \<open>
  \<open>handleConfirmImport\<close>, lines 425-514, split at the \<open>await fetch\<close>. \<open>platformVal\<close> and
  \<open>shopName\<close> are the values of the two inputs (the empty string when the element is
  missing), \<open>answer\<close> is what the operator answers to the \<open>confirm\<close> dialog. \<open>!apiData\<close>
  is true for \<open>null\<close> only: an empty array is truthy.
\<close>

definition handleConfirmImport_start :: "string \<Rightarrow> string \<Rightarrow> bool \<Rightarrow> state \<Rightarrow> state" where
  "handleConfirmImport_start platformVal shopName answer st =
     (case (apiData st, mappingData st) of
        (Some rows, Some m) \<Rightarrow>
          if requirePlatform (config st) \<and> platformVal = [] then alert SelectPlatform st
          else if requireShopName (config st) \<and> shopName = [] then alert EnterShopName st
          else
            let fullMappedData = applyMapping rows m;
                totalRecords = length fullMappedData;
                st1 = alert (ConfirmImportPrompt totalRecords) st
            in if \<not> answer then st1
               else send (PostImport \<lparr>imp_platform = platformVal, imp_shop_name = shopName,
                                       imp_data = fullMappedData, imp_mapping = m\<rparr>)
                      K_handleConfirmImport (st1\<lparr>btnConfirmImport_disabled := True\<rparr>)
      | _ \<Rightarrow> alert NoDataToImport st)"

definition redirect_target :: "config \<Rightarrow> body \<Rightarrow> string" where
  "redirect_target c result =
     (if truthy (redirectUrl c) then the (redirectUrl c)
      else if truthy (res_import_date result)
      then ''/?import_from='' @ the (res_import_date result) @ ''&import_to='' @ the (res_import_date result)
      else ''/'')"

definition import_finally :: "state \<Rightarrow> state" where
  "import_finally st = st\<lparr>btnConfirmImport_disabled := False\<rparr>"

definition handleConfirmImport_resume :: "outcome \<Rightarrow> state \<Rightarrow> state" where
  "handleConfirmImport_resume out st =
     (case out of
        Rejected msg \<Rightarrow> import_finally (alert (ErrorPrefix (Text msg)) st)
      | Unparsable ok msg \<Rightarrow> import_finally (alert (ErrorPrefix (Text msg)) st)
      | Reply ok result \<Rightarrow>
          if \<not> ok
          then import_finally (alert (ErrorPrefix (or_default (res_error result) ImportFailedDefault)) st)
          else
            let st1 = alert (Imported (res_imported result)) st
            in if \<not> previewModal st1 then import_finally (alert (ErrorPrefix TypeErrorText) st1)
               else import_finally
                      (st1\<lparr>previewModal_shown := False,
                           location_href := Some (redirect_target (config st1) result)\<rparr>))"

section \<open>Saved configuration store\<close>

text \<open>The callback of both filters, lines 557-561 and 725-727.\<close>

definition configFilter :: "string \<Rightarrow> saved_config \<Rightarrow> bool" where
  "configFilter activeModule cfg \<longleftrightarrow>
     \<not> truthy (module_type cfg) \<or> module_type cfg = Some activeModule"

text \<open>
  \<open>loadSavedConfigs\<close>, lines 550-568, split at its \<open>await\<close>. \<open>k\<close> is the continuation
  that waits for the list: \<open>K_loadSavedConfigs\<close> when nothing follows the call, the rest
  of the caller when the caller awaits it.
\<close>

definition loadSavedConfigs_start :: "continuation \<Rightarrow> state \<Rightarrow> state" where
  "loadSavedConfigs_start k st = send GetConfigs k st"

definition loadSavedConfigs_resume :: "outcome \<Rightarrow> state \<Rightarrow> state" where
  "loadSavedConfigs_resume out st =
     (case out of
        Reply ok result \<Rightarrow>
          (case res_configs result of
             Some cs \<Rightarrow>
               if res_success result
               then st\<lparr>allConfigs := filter (configFilter (moduleType (config st))) cs\<rparr>
               else st
           | None \<Rightarrow> st)
      | _ \<Rightarrow> st)"

definition loadConfigsTable_start :: "continuation \<Rightarrow> state \<Rightarrow> state" where
  "loadConfigsTable_start k st = send GetConfigs k (st\<lparr>configsTable := TableLoading\<rparr>)"

definition loadConfigsTable_resume :: "outcome \<Rightarrow> state \<Rightarrow> state" where
  "loadConfigsTable_resume out st =
     (case out of
        Rejected msg \<Rightarrow> st\<lparr>configsTable := TableError (Text msg)\<rparr>
      | Unparsable ok msg \<Rightarrow> st\<lparr>configsTable := TableError (Text msg)\<rparr>
      | Reply ok result \<Rightarrow>
          (case res_configs result of
             Some cs \<Rightarrow>
               if res_success result
               then (let configs = filter (configFilter (moduleType (config st))) cs
                     in st\<lparr>configsTable := (if configs = [] then TableEmpty else TableRows configs)\<rparr>)
               else st\<lparr>configsTable := TableError FailedToLoadConfigs\<rparr>
           | None \<Rightarrow> st\<lparr>configsTable := TableError FailedToLoadConfigs\<rparr>))"

text \<open>
  \<open>handleConfigSelect\<close>, lines 586-615. The values it writes into the inputs of the form
  are not part of the state: the handlers that read the inputs take them as arguments.
\<close>

definition handleConfigSelect_start :: "int option \<Rightarrow> state \<Rightarrow> state" where
  "handleConfigSelect_start configId st =
     (case configId of None \<Rightarrow> st | Some i \<Rightarrow> send (GetConfig i) K_handleConfigSelect st)"

definition handleConfigSelect_resume :: "outcome \<Rightarrow> state \<Rightarrow> state" where
  "handleConfigSelect_resume out st =
     (case out of
        Reply ok result \<Rightarrow>
          (case res_config result of
             Some c \<Rightarrow> if res_success result then alert (ConfigLoaded (config_name c)) st else st
           | None \<Rightarrow> st)
      | _ \<Rightarrow> alert LoadConfigFailed st)"

text \<open>
  \<open>handleSaveConfig\<close>, lines 618-686; \<open>now\<close> is \<open>new Date().getTime()\<close> as a string.
\<close>

definition handleSaveConfig_start :: "form_data \<Rightarrow> string \<Rightarrow> state \<Rightarrow> state" where
  "handleSaveConfig_start inputs now st =
     (if requireShopName (config st) \<and> shop_name inputs = [] then alert ShopNameBeforeSave st
      else if requirePlatform (config st) \<and> platform inputs = [] then alert PlatformBeforeSave st
      else if api_url inputs = [] then alert ApiUrlBeforeSave st
      else
        let configName =
              (if shop_name inputs \<noteq> [] \<and> platform inputs \<noteq> []
               then shop_name inputs @ ''_'' @ platform inputs
               else moduleType (config st) @ ''_'' @ now)
        in send (PostConfig \<lparr>new_module_type = moduleType (config st),
                              new_config_name = configName,
                              new_shop_name = or_null (shop_name inputs),
                              new_platform = or_null (platform inputs),
                              new_api_url = api_url inputs,
                              new_data_path = data_path inputs,
                              new_api_key = api_key inputs\<rparr>) K_handleSaveConfig st)"

definition handleSaveConfig_resume :: "outcome \<Rightarrow> state \<Rightarrow> state" where
  "handleSaveConfig_resume out st =
     (case out of
        Rejected msg \<Rightarrow> alert (ErrorPrefix (Text msg)) st
      | Unparsable ok msg \<Rightarrow> alert (ErrorPrefix (Text msg)) st
      | Reply ok result \<Rightarrow>
          if res_success result
          then loadSavedConfigs_start K_loadSavedConfigs
                 (alert (BackendMessage (res_message result)) st)
          else alert (ErrorPrefix (or_default (res_error result) SaveFailedDefault)) st)"

definition openManageConfigsModal :: "state \<Rightarrow> state" where
  "openManageConfigsModal st =
     (if \<not> manageConfigsModal st then alert ManageModalNotReady st
      else loadConfigsTable_start K_loadConfigsTable (st\<lparr>manageConfigsModal_shown := True\<rparr>))"

definition handleViewConfig_start :: "int \<Rightarrow> state \<Rightarrow> state" where
  "handleViewConfig_start configId st = send (GetConfig configId) K_handleViewConfig st"

definition handleViewConfig_resume :: "outcome \<Rightarrow> state \<Rightarrow> state" where
  "handleViewConfig_resume out st =
     (case out of
        Reply ok result \<Rightarrow>
          (case res_config result of
             Some c \<Rightarrow> if res_success result then st\<lparr>viewConfigContent := Some c\<rparr> else st
           | None \<Rightarrow> st)
      | _ \<Rightarrow> alert ViewConfigFailed st)"

text \<open>
  \<open>handleDeleteConfig(configId)\<close>, lines 866-890: the first phase of a delete. It
  fetches the record and shows it in the confirmation modal.
\<close>

definition handleDeleteConfig_start :: "int \<Rightarrow> state \<Rightarrow> state" where
  "handleDeleteConfig_start configId st = send (GetConfig configId) K_handleDeleteConfig st"

definition handleDeleteConfig_resume :: "outcome \<Rightarrow> state \<Rightarrow> state" where
  "handleDeleteConfig_resume out st =
     (case out of
        Reply ok result \<Rightarrow>
          (case res_config result of
             Some c \<Rightarrow>
               if res_success result
               then st\<lparr>configToDelete := Some c, deleteConfigShown := Some c,
                       deleteConfigModal_shown := True\<rparr>
               else st
           | None \<Rightarrow> st)
      | _ \<Rightarrow> alert PrepareDeleteFailed st)"

text \<open>
  \<open>confirmDeleteConfig\<close>, lines 893-935: the second phase. It has three \<open>await\<close>s on
  its successful path: the DELETE call, \<open>loadConfigsTable()\<close> and \<open>loadSavedConfigs()\<close>;
  \<open>_start\<close> runs up to the DELETE call and the three continuations follow. The
  \<open>finally\<close> block runs when the function ends, on every path.
\<close>

definition confirmDeleteConfig_start :: "state \<Rightarrow> state" where
  "confirmDeleteConfig_start st =
     (case configToDelete st of
        None \<Rightarrow> alert ConfigToDeleteMissing st
      | Some c \<Rightarrow> send (DeleteConfig (cfg_id c)) K_confirmDelete_deleted
                  (st\<lparr>btnConfirmDelete_disabled := True\<rparr>))"

definition delete_finally :: "state \<Rightarrow> state" where
  "delete_finally st = st\<lparr>btnConfirmDelete_disabled := False\<rparr>"

definition confirmDeleteConfig_deleted :: "outcome \<Rightarrow> state \<Rightarrow> state" where
  "confirmDeleteConfig_deleted out st =
     (case out of
        Rejected msg \<Rightarrow> delete_finally (alert (ErrorPrefix (Text msg)) st)
      | Unparsable ok msg \<Rightarrow> delete_finally (alert (ErrorPrefix (Text msg)) st)
      | Reply ok result \<Rightarrow>
          if res_success result
          then (case configToDelete st of
                  None \<Rightarrow> delete_finally (alert (ErrorPrefix TypeErrorText) st)
                | Some c \<Rightarrow>
                    loadConfigsTable_start K_confirmDelete_tableLoaded
                      ((alert (ConfigDeleted (config_name c)) st)\<lparr>deleteConfigModal_shown := False\<rparr>))
          else delete_finally
                 (alert (ErrorPrefix (or_default (res_error result) DeleteFailedDefault)) st))"

definition confirmDeleteConfig_tableLoaded :: "outcome \<Rightarrow> state \<Rightarrow> state" where
  "confirmDeleteConfig_tableLoaded out st =
     loadSavedConfigs_start K_confirmDelete_listLoaded (loadConfigsTable_resume out st)"

definition confirmDeleteConfig_listLoaded :: "outcome \<Rightarrow> state \<Rightarrow> state" where
  "confirmDeleteConfig_listLoaded out st =
     delete_finally ((loadSavedConfigs_resume out st)\<lparr>configToDelete := None\<rparr>)"

section \<open>The event loop\<close>

text \<open>
  Everything runs on one thread: a handler runs from an event to its next \<open>await\<close>,
  and a continuation runs when its response arrives. An event is a click (or change) on
  one of the controls that \<open>init\<close> wires (lines 142-187) or that \<open>loadConfigsTable\<close>
  renders (lines 773 and 776), with what the page supplies to the handler, or the arrival
  of a response for a waiting continuation. The module exports only \<open>init\<close>,
  \<open>handleViewConfig\<close> and \<open>handleDeleteConfig\<close>, so the other handlers run only as
  listeners. A disabled button dispatches no click event: the two buttons that the module
  disables ignore a click while \<open>disabled\<close> is set. A response resumes a continuation
  only when one of its kind is waiting, the oldest such; the continuations of one kind
  read nothing of the request they wait for, so it does not matter which of them a
  response resumes. A response for which nothing waits changes nothing.
\<close>

datatype event =
    Click_btnFetchPreview bool form_data
  | Click_btnPreviewCache form_data
  | Click_btnEditMapping
  | Click_btnSaveMapping "(string \<times> string) list"
  | Click_btnConfirmImport string string bool
  | Change_savedConfigSelect "int option"
  | Click_btnSaveConfig form_data string
  | Click_btnManageConfigs
  | Click_viewConfig int
  | Click_deleteConfig int
  | Click_btnConfirmDelete
  | Resolve continuation outcome

fun resume :: "continuation \<Rightarrow> outcome \<Rightarrow> state \<Rightarrow> state" where
  "resume K_fetchAndPreview out st = fetchAndPreview_resume out st"
| "resume K_handleConfirmImport out st = handleConfirmImport_resume out st"
| "resume K_loadSavedConfigs out st = loadSavedConfigs_resume out st"
| "resume K_loadConfigsTable out st = loadConfigsTable_resume out st"
| "resume K_handleConfigSelect out st = handleConfigSelect_resume out st"
| "resume K_handleSaveConfig out st = handleSaveConfig_resume out st"
| "resume K_handleViewConfig out st = handleViewConfig_resume out st"
| "resume K_handleDeleteConfig out st = handleDeleteConfig_resume out st"
| "resume K_confirmDelete_deleted out st = confirmDeleteConfig_deleted out st"
| "resume K_confirmDelete_tableLoaded out st = confirmDeleteConfig_tableLoaded out st"
| "resume K_confirmDelete_listLoaded out st = confirmDeleteConfig_listLoaded out st"

fun forget :: "continuation \<Rightarrow> (continuation \<times> request) list \<Rightarrow> (continuation \<times> request) list" where
  "forget k [] = []"
| "forget k ((k', r) # ws) = (if k' = k then ws else (k', r) # forget k ws)"

fun step :: "event \<Rightarrow> state \<Rightarrow> state" where
  "step (Click_btnFetchPreview formValid inputs) st = handleFetchPreview formValid inputs st"
| "step (Click_btnPreviewCache inputs) st = handlePreviewCache inputs st"
| "step Click_btnEditMapping st = handleEditMapping st"
| "step (Click_btnSaveMapping entries) st = handleSaveMapping entries st"
| "step (Click_btnConfirmImport platformVal shopName answer) st =
     (if btnConfirmImport_disabled st then st
      else handleConfirmImport_start platformVal shopName answer st)"
| "step (Change_savedConfigSelect configId) st = handleConfigSelect_start configId st"
| "step (Click_btnSaveConfig inputs now) st = handleSaveConfig_start inputs now st"
| "step Click_btnManageConfigs st = openManageConfigsModal st"
| "step (Click_viewConfig configId) st = handleViewConfig_start configId st"
| "step (Click_deleteConfig configId) st = handleDeleteConfig_start configId st"
| "step Click_btnConfirmDelete st =
     (if btnConfirmDelete_disabled st then st else confirmDeleteConfig_start st)"
| "step (Resolve k out) st =
     (if k \<in> fst ` set (awaiting st)
      then resume k out (st\<lparr>awaiting := forget k (awaiting st)\<rparr>)
      else st)"

text \<open>The state after a sequence of events, the first event first.\<close>

definition run :: "event list \<Rightarrow> state \<Rightarrow> state" where
  "run evs st = fold step evs st"

text \<open>
  \<open>init(customConfig)\<close> with the merged configuration: the closure variables at their
  initial values (lines 49-70), and the call of \<open>loadSavedConfigs()\<close> that ends \<open>init\<close>.
\<close>

definition init :: "config \<Rightarrow> bool \<Rightarrow> bool \<Rightarrow> state" where
  "init cfg modalPreview modalManage =
     loadSavedConfigs_start K_loadSavedConfigs
       \<lparr>config = cfg, apiData = None, mappingData = None, previewData = None,
        allConfigs = [], configToDelete = None,
        previewModal = modalPreview, manageConfigsModal = modalManage,
        btnConfirmImport_disabled = False, btnConfirmDelete_disabled = False,
        previewModal_shown = False, previewLoading = False, previewContent = False,
        previewError = None, mappingInfo = [], previewTableBody = [], previewSummary = None,
        mappingFormFields = [], editMappingModal_shown = False,
        manageConfigsModal_shown = False, configsTable = TableUntouched,
        viewConfigContent = None, deleteConfigShown = None, deleteConfigModal_shown = False,
        location_href = None, sent = [], alerts = [], awaiting = []\<rparr>"

definition DEFAULT_CONFIG :: config where
  "DEFAULT_CONFIG =
     \<lparr>moduleType = ''orders'',
      displayFields = [''order_id'', ''sku'', ''item_name'', ''qty''],
      wmsFields = [''order_id'', ''sku'', ''item_name'', ''qty'', ''order_time'',
                   ''shop_name'', ''logistic_type''],
      requirePlatform = True, requireShopName = False, redirectUrl = None\<rparr>"

section \<open>Observations on the network log and the backend collaborator\<close>

text \<open>The import calls and the DELETE calls among the requests sent so far.\<close>

definition import_calls :: "request list \<Rightarrow> import_body list" where
  "import_calls rs = [b. PostImport b \<leftarrow> rs]"

definition delete_calls :: "request list \<Rightarrow> int list" where
  "delete_calls rs = [i. DeleteConfig i \<leftarrow> rs]"

text \<open>
  A preview request fails when the fetch promise rejects (network failure) or the
  response has a non-success status (\<open>response.ok\<close> is false).
\<close>

fun failed :: "outcome \<Rightarrow> bool" where
  "failed (Rejected msg) = True"
| "failed (Unparsable ok msg) = (\<not> ok)"
| "failed (Reply ok result) = (\<not> ok)"

definition empty_body :: body where
  "empty_body =
     \<lparr>res_error = None, res_data = None, res_mapping = None, res_preview = None,
      res_total_rows = None, res_from_cache = False, res_cache_expires = None,
      res_imported = None, res_import_date = None, res_success = False,
      res_message = None, res_configs = None, res_config = None\<rparr>"

text \<open>
  Modelled from the spec: the backend configuration collection behind \<open>/api/configs\<close>,
  which is not part of the client sources. The spec gives its endpoints:
  \<open>GET /api/configs\<close> answers \<open>{success, configs}\<close> with the persisted configurations in
  the backend's order, \<open>GET /api/configs/{id}\<close> answers \<open>{success, config}\<close> or
  \<open>{success: false}\<close> when the record is absent, and \<open>DELETE /api/configs/{id}\<close> answers
  \<open>{success}\<close> and moves the configuration to the state deleted, or
  \<open>{success: false, error}\<close>.
\<close>

definition backend_list :: "saved_config list \<Rightarrow> outcome" where
  "backend_list store = Reply True (empty_body\<lparr>res_success := True, res_configs := Some store\<rparr>)"

definition backend_get :: "saved_config list \<Rightarrow> int \<Rightarrow> outcome" where
  "backend_get store i =
     (case find (\<lambda>c. cfg_id c = i) store of
        Some c \<Rightarrow> Reply True (empty_body\<lparr>res_success := True, res_config := Some c\<rparr>)
      | None \<Rightarrow> Reply False empty_body)"

definition backend_delete :: "saved_config list \<Rightarrow> int \<Rightarrow> saved_config list \<times> outcome" where
  "backend_delete store i =
     (if i \<in> cfg_id ` set store
      then (filter (\<lambda>c. cfg_id c \<noteq> i) store, Reply True (empty_body\<lparr>res_success := True\<rparr>))
      else (store, Reply False (empty_body\<lparr>res_error := Some ''not found''\<rparr>)))"

text \<open>
  Modelled from the spec: the backend answering a request to one of the configuration
  endpoints above (\<open>None\<close> for a request to another endpoint), and one turn of the
  network: the backend answers the oldest waiting request and the response resumes the
  continuation that waits for it.
\<close>

fun backend_answer :: "saved_config list \<Rightarrow> request \<Rightarrow> (saved_config list \<times> outcome) option" where
  "backend_answer store GetConfigs = Some (store, backend_list store)"
| "backend_answer store (GetConfig i) = Some (store, backend_get store i)"
| "backend_answer store (DeleteConfig i) = Some (backend_delete store i)"
| "backend_answer store r = None"

definition serve :: "saved_config list \<times> state \<Rightarrow> saved_config list \<times> state" where
  "serve bs =
     (case awaiting (snd bs) of
        [] \<Rightarrow> bs
      | (k, r) # ws \<Rightarrow>
          (case backend_answer (fst bs) r of
             None \<Rightarrow> bs
           | Some (store', out) \<Rightarrow> (store', step (Resolve k out) (snd bs))))"


fun delete_resolution :: "event \<Rightarrow> bool" where
  "delete_resolution (Resolve K_confirmDelete_deleted out) = True"
| "delete_resolution (Resolve K_confirmDelete_listLoaded out) = True"
| "delete_resolution e = False"

text \<open>The responses that resume \<open>confirmDeleteConfig\<close> at one of its three \<open>await\<close>s.\<close>

fun delete_continuation :: "event \<Rightarrow> bool" where
  "delete_continuation (Resolve K_confirmDelete_deleted out) = True"
| "delete_continuation (Resolve K_confirmDelete_tableLoaded out) = True"
| "delete_continuation (Resolve K_confirmDelete_listLoaded out) = True"
| "delete_continuation e = False"

section \<open>Properties of the mapping engine\<close>








lemma reprocessPreviewWithMapping_applies:
  "previewData (reprocessPreviewWithMapping (st\<lparr>apiData := Some rawRows, mappingData := Some m\<rparr>))
     = Some (applyMapping rawRows m)"
  by (simp add: reprocessPreviewWithMapping_def)


















section \<open>Properties of the preview/cache controller\<close>

lemma fetchAndPreview_start_session:
  "apiData (fetchAndPreview_start formData st) = apiData st \<and>
   mappingData (fetchAndPreview_start formData st) = mappingData st \<and>
   previewData (fetchAndPreview_start formData st) = previewData st"
  by (simp add: fetchAndPreview_start_def alert_def send_def)

lemma fetchAndPreview_resume_failed:
  "failed out \<Longrightarrow>
   fetchAndPreview_resume out st =
     preview_catch (case out of Rejected msg \<Rightarrow> Text msg
                    | Unparsable ok msg \<Rightarrow> Text msg
                    | Reply ok result \<Rightarrow> or_default (res_error result) FetchFailedDefault) st"
  by (cases out) (simp_all add: fetchAndPreview_resume_def)

text \<open>
  Claim C6. A preview request that fails (the fetch rejects, or the response has a
  non-success status) ends in the \<open>catch\<close> block: the preview surface shows a message
  (the backend's \<open>error\<close> text, the default text when there is none, or the message of
  the rejection), and \<open>apiData\<close>, \<open>mappingData\<close> and \<open>previewData\<close> are what they were
  before the call. The same holds of the continuation alone, in whatever state \<open>st'\<close> the
  response finds the module.
\<close>

theorem failed_preview_keeps_session:
  assumes "failed out" and "previewModal st"
  shows "sent (fetchAndPreview_start formData st) = sent st @ [PostPreview formData] \<and>
         apiData (fetchAndPreview_resume out (fetchAndPreview_start formData st)) = apiData st \<and>
         mappingData (fetchAndPreview_resume out (fetchAndPreview_start formData st)) = mappingData st \<and>
         previewData (fetchAndPreview_resume out (fetchAndPreview_start formData st)) = previewData st \<and>
         previewError (fetchAndPreview_resume out (fetchAndPreview_start formData st)) =
           Some (case out of Rejected msg \<Rightarrow> Text msg
                 | Unparsable ok msg \<Rightarrow> Text msg
                 | Reply ok result \<Rightarrow> or_default (res_error result) FetchFailedDefault) \<and>
         apiData (fetchAndPreview_resume out st') = apiData st' \<and>
         mappingData (fetchAndPreview_resume out st') = mappingData st' \<and>
         previewData (fetchAndPreview_resume out st') = previewData st'"
  using assms
  by (simp add: fetchAndPreview_resume_failed preview_catch_def fetchAndPreview_start_session)
     (simp add: fetchAndPreview_start_def send_def)

theorem failed_preview_keeps_session_witness:
  "failed (Reply False (empty_body\<lparr>res_error := Some ''upstream timeout''\<rparr>)) \<and>
   previewModal ((init DEFAULT_CONFIG True True)\<lparr>apiData := Some [[(''Order No'', JStr ''1'')]]\<rparr>) \<and>
   apiData (fetchAndPreview_resume (Reply False (empty_body\<lparr>res_error := Some ''upstream timeout''\<rparr>))
     (fetchAndPreview_start \<lparr>api_url = ''u'', data_path = '''', api_key = '''', platform = ''shopee'',
         shop_name = '''', use_cache = False\<rparr>
       ((init DEFAULT_CONFIG True True)\<lparr>apiData := Some [[(''Order No'', JStr ''1'')]]\<rparr>)))
     = Some [[(''Order No'', JStr ''1'')]] \<and>
   previewError (fetchAndPreview_resume (Reply False (empty_body\<lparr>res_error := Some ''upstream timeout''\<rparr>))
     (fetchAndPreview_start \<lparr>api_url = ''u'', data_path = '''', api_key = '''', platform = ''shopee'',
         shop_name = '''', use_cache = False\<rparr>
       ((init DEFAULT_CONFIG True True)\<lparr>apiData := Some [[(''Order No'', JStr ''1'')]]\<rparr>)))
     = Some (Text ''upstream timeout'')"
proof -
  let ?out = "Reply False (empty_body\<lparr>res_error := Some ''upstream timeout''\<rparr>)"
  let ?st = "(init DEFAULT_CONFIG True True)\<lparr>apiData := Some [[(''Order No'', JStr ''1'')]]\<rparr>"
  have h1: "failed ?out" by simp
  have h2: "previewModal ?st" by (simp add: init_def loadSavedConfigs_start_def send_def)
  let ?fd = "\<lparr>api_url = ''u'', data_path = '''', api_key = '''', platform = ''shopee'',
         shop_name = '''', use_cache = False\<rparr>"
  from failed_preview_keeps_session[OF h1 h2, where formData = ?fd and st' = ?st] h1 h2
  show ?thesis by (simp add: empty_body_def)
qed

section \<open>Properties of the import committer\<close>

lemma handleConfirmImport_start_no_session:
  "apiData st = None \<or> mappingData st = None \<Longrightarrow>
   handleConfirmImport_start platformVal shopName answer st = alert NoDataToImport st"
  by (auto simp: handleConfirmImport_start_def split: option.splits)

text \<open>
  Claim C5 holds when \<open>apiData\<close> or \<open>mappingData\<close> is \<open>null\<close> (the lemma above: the
  handler alerts and returns, nothing is sent). It fails for an empty array of raw rows:
  \<open>!apiData\<close> is false for \<open>[]\<close>, the handler asks to confirm the import of 0 records
  and, on confirmation, sends the import request with an empty \<open>data\<close>. Here the session
  is that of a preview that returned no rows, the platform is chosen and the operator
  confirms.
\<close>

theorem commit_with_empty_rows_sends_import:
  "sent (step (Click_btnConfirmImport ''shopee'' '''' True)
      ((init DEFAULT_CONFIG True True)
         \<lparr>apiData := Some [], mappingData := Some [(''order_id'', Some ''Order No'')]\<rparr>))
     = [GetConfigs,
        PostImport \<lparr>imp_platform = ''shopee'', imp_shop_name = '''', imp_data = [],
                     imp_mapping = [(''order_id'', Some ''Order No'')]\<rparr>] \<and>
   alerts (step (Click_btnConfirmImport ''shopee'' '''' True)
      ((init DEFAULT_CONFIG True True)
         \<lparr>apiData := Some [], mappingData := Some [(''order_id'', Some ''Order No'')]\<rparr>))
     = [ConfirmImportPrompt 0]"
  by (simp add: init_def DEFAULT_CONFIG_def loadSavedConfigs_start_def send_def alert_def
        handleConfirmImport_start_def applyMapping_def)

section \<open>Properties of the saved configuration store\<close>

lemma configFilter_iff:
  "configFilter activeModule cfg \<longleftrightarrow>
     module_type cfg = Some activeModule \<or> module_type cfg = None \<or> module_type cfg = Some []"
  by (cases "module_type cfg") (auto simp: configFilter_def)

lemma configFilter_eq:
  "configFilter activeModule =
     (\<lambda>cfg. module_type cfg = Some activeModule \<or> module_type cfg = None \<or> module_type cfg = Some [])"
  by (rule ext) (rule configFilter_iff)

text \<open>
  Claim C7, as the code has it. From a successful list response, \<open>loadSavedConfigs\<close>
  keeps in \<open>allConfigs\<close>, and \<open>loadConfigsTable\<close> shows, exactly the configurations whose
  \<open>module_type\<close> is the active module type, or is absent (\<open>null\<close>), or is the empty
  string, in the backend's order (a \<open>filter\<close> of the backend's list). The empty string
  is the amendment: \<open>!cfg.module_type\<close> is true for it.
\<close>

theorem config_list_filter:
  assumes "res_success result" and "res_configs result = Some cs"
  shows "allConfigs (loadSavedConfigs_resume (Reply ok result) st) =
           filter (\<lambda>cfg. module_type cfg = Some (moduleType (config st)) \<or>
                          module_type cfg = None \<or> module_type cfg = Some '''') cs \<and>
         configsTable (loadConfigsTable_resume (Reply ok result) st) =
           (let shown = filter (\<lambda>cfg. module_type cfg = Some (moduleType (config st)) \<or>
                                        module_type cfg = None \<or> module_type cfg = Some '''') cs
            in if shown = [] then TableEmpty else TableRows shown)"
  using assms
  by (simp add: loadSavedConfigs_resume_def loadConfigsTable_resume_def configFilter_eq Let_def)

text \<open>
  The backend returns a stock configuration, an orders configuration and a legacy one
  without tag; the orders module keeps the last two, in that order.
\<close>

theorem config_list_filter_witness:
  "allConfigs (loadSavedConfigs_resume
     (Reply True (empty_body\<lparr>res_success := True, res_configs := Some
        [\<lparr>cfg_id = 1, module_type = Some ''stock'', config_name = ''a'', cfg_platform = None,
          cfg_shop_name = None, cfg_api_url = ''u'', cfg_data_path = '''', cfg_api_key = ''''\<rparr>,
         \<lparr>cfg_id = 2, module_type = Some ''orders'', config_name = ''b'', cfg_platform = None,
          cfg_shop_name = None, cfg_api_url = ''u'', cfg_data_path = '''', cfg_api_key = ''''\<rparr>,
         \<lparr>cfg_id = 3, module_type = None, config_name = ''c'', cfg_platform = None,
          cfg_shop_name = None, cfg_api_url = ''u'', cfg_data_path = '''', cfg_api_key = ''''\<rparr>]\<rparr>))
     (init DEFAULT_CONFIG True True))
   = [\<lparr>cfg_id = 2, module_type = Some ''orders'', config_name = ''b'', cfg_platform = None,
       cfg_shop_name = None, cfg_api_url = ''u'', cfg_data_path = '''', cfg_api_key = ''''\<rparr>,
      \<lparr>cfg_id = 3, module_type = None, config_name = ''c'', cfg_platform = None,
       cfg_shop_name = None, cfg_api_url = ''u'', cfg_data_path = '''', cfg_api_key = ''''\<rparr>]"
proof -
  let ?cs = "[\<lparr>cfg_id = 1, module_type = Some ''stock'', config_name = ''a'', cfg_platform = None,
          cfg_shop_name = None, cfg_api_url = ''u'', cfg_data_path = '''', cfg_api_key = ''''\<rparr>,
         \<lparr>cfg_id = 2, module_type = Some ''orders'', config_name = ''b'', cfg_platform = None,
          cfg_shop_name = None, cfg_api_url = ''u'', cfg_data_path = '''', cfg_api_key = ''''\<rparr>,
         \<lparr>cfg_id = 3, module_type = None, config_name = ''c'', cfg_platform = None,
          cfg_shop_name = None, cfg_api_url = ''u'', cfg_data_path = '''', cfg_api_key = ''''\<rparr>]"
  let ?r = "empty_body\<lparr>res_success := True, res_configs := Some ?cs\<rparr>"
  have h1: "res_success ?r" by simp
  have h2: "res_configs ?r = Some ?cs" by simp
  have cfg: "moduleType (config (init DEFAULT_CONFIG True True)) = ''orders''"
    by (simp add: init_def DEFAULT_CONFIG_def loadSavedConfigs_start_def send_def)
  from config_list_filter[OF h1 h2, of True "init DEFAULT_CONFIG True True"] cfg
  show ?thesis by simp
qed

text \<open>
  C7 as the spec states it fails for a configuration whose \<open>module_type\<close> is the empty
  string: the property is present, it is not the active module type \<open>orders\<close>, and the
  configuration is kept.
\<close>

theorem empty_module_type_counterexample:
  "moduleType (config (init DEFAULT_CONFIG True True)) = ''orders'' \<and>
   allConfigs (loadSavedConfigs_resume
     (Reply True (empty_body\<lparr>res_success := True, res_configs := Some
        [\<lparr>cfg_id = 4, module_type = Some '''', config_name = ''d'', cfg_platform = None,
          cfg_shop_name = None, cfg_api_url = ''u'', cfg_data_path = '''', cfg_api_key = ''''\<rparr>]\<rparr>))
     (init DEFAULT_CONFIG True True))
   = [\<lparr>cfg_id = 4, module_type = Some '''', config_name = ''d'', cfg_platform = None,
       cfg_shop_name = None, cfg_api_url = ''u'', cfg_data_path = '''', cfg_api_key = ''''\<rparr>]"
  by (simp add: init_def DEFAULT_CONFIG_def loadSavedConfigs_start_def send_def
        loadSavedConfigs_resume_def configFilter_def empty_body_def)

section \<open>Properties of the event loop\<close>

lemma forget_append_in:
  "k \<in> fst ` set ws \<Longrightarrow> forget k (ws @ ws') = forget k ws @ ws'"
proof (induction k ws rule: forget.induct)
  case (1 k)
  then show ?case by simp
next
  case (2 k k' r ws)
  show ?case
  proof (cases "k' = k")
    case True
    then show ?thesis by simp
  next
    case False
    with "2.prems" have "k \<in> fst ` set ws" by auto
    with False "2.IH" show ?thesis by simp
  qed
qed

lemma forget_append_notin:
  "k \<notin> fst ` set ws \<Longrightarrow> forget k (ws @ ws') = ws @ forget k ws'"
proof (induction k ws rule: forget.induct)
  case (1 k)
  then show ?case by simp
next
  case (2 k k' r ws)
  from "2.prems" have ne: "k' \<noteq> k" and rest: "k \<notin> fst ` set ws" by auto
  with "2.IH" show ?case by simp
qed

lemma forget_other:
  "k' \<noteq> k \<Longrightarrow> k' \<in> fst ` set (forget k ws) \<longleftrightarrow> k' \<in> fst ` set ws"
proof (induction k ws rule: forget.induct)
  case (1 k)
  then show ?case by simp
next
  case (2 k k'' r ws)
  show ?case
  proof (cases "k'' = k")
    case True
    with "2.prems" show ?thesis by auto
  next
    case False
    with "2.IH" "2.prems" show ?thesis by simp
  qed
qed

lemma forget_leaves_second:
  "k \<in> fst ` set (forget k (ws @ [(k, a), (k, b)]))"
proof (cases "k \<in> fst ` set ws")
  case True
  then show ?thesis by (simp add: forget_append_in)
next
  case False
  then show ?thesis by (simp add: forget_append_notin)
qed

lemma fetchAndPreview_resume_ok:
  "apiData (fetchAndPreview_resume (Reply True r) st) = res_data r \<and>
   mappingData (fetchAndPreview_resume (Reply True r) st) = res_mapping r \<and>
   previewData (fetchAndPreview_resume (Reply True r) st) = res_preview r \<and>
   sent (fetchAndPreview_resume (Reply True r) st) = sent st \<and>
   awaiting (fetchAndPreview_resume (Reply True r) st) = awaiting st \<and>
   previewModal (fetchAndPreview_resume (Reply True r) st) = previewModal st"
  by (simp add: fetchAndPreview_resume_def displayPreview_def preview_catch_def Let_def
           split: option.splits)

lemma fetchAndPreview_start_ready:
  "previewModal st \<Longrightarrow>
   sent (fetchAndPreview_start fd st) = sent st @ [PostPreview fd] \<and>
   awaiting (fetchAndPreview_start fd st) = awaiting st @ [(K_fetchAndPreview, PostPreview fd)] \<and>
   previewModal (fetchAndPreview_start fd st)"
  by (simp add: fetchAndPreview_start_def send_def)

text \<open>
  Claim C3, as the code has it. The preview request carries the form fields and nothing
  else, and the continuation writes every successful response into the session. When
  fetch A is issued, then fetch B, and the response of B arrives before the response of
  A, the session (\<open>apiData\<close>, \<open>mappingData\<close>, \<open>previewData\<close>) ends with the result of A,
  the response that resolved last: no response is discarded.
\<close>

theorem last_resolved_preview_wins:
  assumes "previewModal st"
  shows "sent (run [Click_btnFetchPreview True inputsA, Click_btnFetchPreview True inputsB,
                    Resolve K_fetchAndPreview (Reply True resultB),
                    Resolve K_fetchAndPreview (Reply True resultA)] st)
           = sent st @ [PostPreview (inputsA\<lparr>use_cache := False\<rparr>),
                        PostPreview (inputsB\<lparr>use_cache := False\<rparr>)] \<and>
         apiData (run [Click_btnFetchPreview True inputsA, Click_btnFetchPreview True inputsB,
                       Resolve K_fetchAndPreview (Reply True resultB),
                       Resolve K_fetchAndPreview (Reply True resultA)] st) = res_data resultA \<and>
         mappingData (run [Click_btnFetchPreview True inputsA, Click_btnFetchPreview True inputsB,
                       Resolve K_fetchAndPreview (Reply True resultB),
                       Resolve K_fetchAndPreview (Reply True resultA)] st) = res_mapping resultA \<and>
         previewData (run [Click_btnFetchPreview True inputsA, Click_btnFetchPreview True inputsB,
                       Resolve K_fetchAndPreview (Reply True resultB),
                       Resolve K_fetchAndPreview (Reply True resultA)] st) = res_preview resultA"
proof -
  let ?fa = "inputsA\<lparr>use_cache := False\<rparr>" and ?fb = "inputsB\<lparr>use_cache := False\<rparr>"
  let ?s1 = "fetchAndPreview_start ?fa st"
  let ?s2 = "fetchAndPreview_start ?fb ?s1"
  let ?s3 = "fetchAndPreview_resume (Reply True resultB)
               (?s2\<lparr>awaiting := forget K_fetchAndPreview (awaiting ?s2)\<rparr>)"
  let ?s4 = "fetchAndPreview_resume (Reply True resultA)
               (?s3\<lparr>awaiting := forget K_fetchAndPreview (awaiting ?s3)\<rparr>)"
  from fetchAndPreview_start_ready[OF assms, of ?fa]
  have s1: "sent ?s1 = sent st @ [PostPreview ?fa]"
    "awaiting ?s1 = awaiting st @ [(K_fetchAndPreview, PostPreview ?fa)]" "previewModal ?s1"
    by simp_all
  from fetchAndPreview_start_ready[OF s1(3), of ?fb] s1
  have s2: "sent ?s2 = sent st @ [PostPreview ?fa, PostPreview ?fb]"
    "awaiting ?s2 = awaiting st @ [(K_fetchAndPreview, PostPreview ?fa), (K_fetchAndPreview, PostPreview ?fb)]"
    by simp_all
  have w2: "K_fetchAndPreview \<in> fst ` set (awaiting ?s2)" by (simp add: s2(2))
  have s3: "sent ?s3 = sent ?s2" "awaiting ?s3 = forget K_fetchAndPreview (awaiting ?s2)"
    by (simp_all add: fetchAndPreview_resume_ok)
  have w3: "K_fetchAndPreview \<in> fst ` set (awaiting ?s3)"
    by (simp add: fetchAndPreview_resume_ok s2(2) forget_leaves_second)
  have r: "run [Click_btnFetchPreview True inputsA, Click_btnFetchPreview True inputsB,
                Resolve K_fetchAndPreview (Reply True resultB),
                Resolve K_fetchAndPreview (Reply True resultA)] st = ?s4"
    using w2 w3 by (simp add: run_def handleFetchPreview_def)
  have "sent ?s4 = sent st @ [PostPreview ?fa, PostPreview ?fb]"
    "apiData ?s4 = res_data resultA" "mappingData ?s4 = res_mapping resultA"
    "previewData ?s4 = res_preview resultA"
    by (simp_all add: fetchAndPreview_resume_ok s3(1) s2(1))
  then show ?thesis unfolding r by simp
qed

theorem last_resolved_preview_wins_witness:
  "previewModal (init DEFAULT_CONFIG True True) \<and>
   apiData (run [Click_btnFetchPreview True
                   \<lparr>api_url = ''https://a'', data_path = '''', api_key = '''', platform = ''shopee'',
                    shop_name = '''', use_cache = False\<rparr>,
                 Click_btnFetchPreview True
                   \<lparr>api_url = ''https://b'', data_path = '''', api_key = '''', platform = ''shopee'',
                    shop_name = '''', use_cache = False\<rparr>,
                 Resolve K_fetchAndPreview (Reply True (empty_body\<lparr>res_data := Some [[(''id'', JStr ''B'')]]\<rparr>)),
                 Resolve K_fetchAndPreview (Reply True (empty_body\<lparr>res_data := Some [[(''id'', JStr ''A'')]]\<rparr>))]
             (init DEFAULT_CONFIG True True))
     = Some [[(''id'', JStr ''A'')]]"
proof -
  have h: "previewModal (init DEFAULT_CONFIG True True)"
    by (simp add: init_def loadSavedConfigs_start_def send_def)
  from last_resolved_preview_wins[OF h,
      where inputsA = "\<lparr>api_url = ''https://a'', data_path = '''', api_key = '''', platform = ''shopee'',
                    shop_name = '''', use_cache = False\<rparr>"
        and inputsB = "\<lparr>api_url = ''https://b'', data_path = '''', api_key = '''', platform = ''shopee'',
                    shop_name = '''', use_cache = False\<rparr>"
        and resultB = "empty_body\<lparr>res_data := Some [[(''id'', JStr ''B'')]]\<rparr>"
        and resultA = "empty_body\<lparr>res_data := Some [[(''id'', JStr ''A'')]]\<rparr>"] h
  show ?thesis by simp
qed

text \<open>
  C3 as the spec states it fails: fetch A (for \<open>https://a\<close>) is issued, then fetch B
  (for \<open>https://b\<close>); B's response arrives first and A's after it. The session then
  holds the rows and the preview of A, not those of B.
\<close>

theorem stale_preview_overwrites_counterexample:
  "apiData (run [Click_btnFetchPreview True
                   \<lparr>api_url = ''https://a'', data_path = '''', api_key = '''', platform = ''shopee'',
                    shop_name = '''', use_cache = False\<rparr>,
                 Click_btnFetchPreview True
                   \<lparr>api_url = ''https://b'', data_path = '''', api_key = '''', platform = ''shopee'',
                    shop_name = '''', use_cache = False\<rparr>,
                 Resolve K_fetchAndPreview
                   (Reply True (empty_body\<lparr>res_data := Some [[(''id'', JStr ''B'')]],
                       res_mapping := Some [(''order_id'', Some ''id'')],
                       res_preview := Some [[(''order_id'', JStr ''B'')]]\<rparr>)),
                 Resolve K_fetchAndPreview
                   (Reply True (empty_body\<lparr>res_data := Some [[(''id'', JStr ''A'')]],
                       res_mapping := Some [(''order_id'', Some ''id'')],
                       res_preview := Some [[(''order_id'', JStr ''A'')]]\<rparr>))]
             (init DEFAULT_CONFIG True True))
     = Some [[(''id'', JStr ''A'')]] \<and>
   previewData (run [Click_btnFetchPreview True
                   \<lparr>api_url = ''https://a'', data_path = '''', api_key = '''', platform = ''shopee'',
                    shop_name = '''', use_cache = False\<rparr>,
                 Click_btnFetchPreview True
                   \<lparr>api_url = ''https://b'', data_path = '''', api_key = '''', platform = ''shopee'',
                    shop_name = '''', use_cache = False\<rparr>,
                 Resolve K_fetchAndPreview
                   (Reply True (empty_body\<lparr>res_data := Some [[(''id'', JStr ''B'')]],
                       res_mapping := Some [(''order_id'', Some ''id'')],
                       res_preview := Some [[(''order_id'', JStr ''B'')]]\<rparr>)),
                 Resolve K_fetchAndPreview
                   (Reply True (empty_body\<lparr>res_data := Some [[(''id'', JStr ''A'')]],
                       res_mapping := Some [(''order_id'', Some ''id'')],
                       res_preview := Some [[(''order_id'', JStr ''A'')]]\<rparr>))]
             (init DEFAULT_CONFIG True True))
     = Some [[(''order_id'', JStr ''A'')]]"
  by (simp add: run_def init_def loadSavedConfigs_start_def send_def handleFetchPreview_def
        fetchAndPreview_start_def fetchAndPreview_resume_def displayPreview_def empty_body_def)

lemma import_calls_append [simp]:
  "import_calls (rs @ rs') = import_calls rs @ import_calls rs'"
  by (simp add: import_calls_def)

lemma import_calls_single [simp]:
  "import_calls [PostImport b] = [b]"
  "import_calls [PostPreview fd] = []"
  "import_calls [GetConfigs] = []"
  "import_calls [GetConfig i] = []"
  "import_calls [PostConfig d] = []"
  "import_calls [DeleteConfig i] = []"
  by (simp_all add: import_calls_def)

lemma displayPreview_frame:
  "btnConfirmImport_disabled (fst (displayPreview a b c d st)) = btnConfirmImport_disabled st \<and>
   btnConfirmDelete_disabled (fst (displayPreview a b c d st)) = btnConfirmDelete_disabled st \<and>
   configToDelete (fst (displayPreview a b c d st)) = configToDelete st \<and>
   sent (fst (displayPreview a b c d st)) = sent st \<and>
   awaiting (fst (displayPreview a b c d st)) = awaiting st"
  by (simp add: displayPreview_def Let_def split: option.splits)

lemma resume_awaiting:
  "\<exists>ws. awaiting (resume k out st) = awaiting st @ ws"
  by (cases k)
     (simp_all add: fetchAndPreview_resume_def preview_catch_def displayPreview_def
        handleConfirmImport_resume_def import_finally_def
        loadSavedConfigs_resume_def loadConfigsTable_resume_def handleConfigSelect_resume_def
        handleSaveConfig_resume_def handleViewConfig_resume_def handleDeleteConfig_resume_def
        confirmDeleteConfig_deleted_def confirmDeleteConfig_tableLoaded_def
        confirmDeleteConfig_listLoaded_def delete_finally_def loadSavedConfigs_start_def
        loadConfigsTable_start_def alert_def send_def Let_def
        split: outcome.splits option.splits)

lemma click_awaiting:
  "\<forall>k out. e \<noteq> Resolve k out \<Longrightarrow> \<exists>ws. awaiting (step e st) = awaiting st @ ws"
proof (cases e)
  case (Click_btnSaveMapping entries)
  then show ?thesis
    by (simp add: handleSaveMapping_def reprocessPreviewWithMapping_def displayPreview_frame Let_def
          split: option.splits)
next
  case (Click_btnConfirmImport p s a)
  then show ?thesis
    by (simp add: handleConfirmImport_start_def alert_def send_def Let_def split: option.splits)
next
  case (Resolve k out)
  assume "\<forall>k out. e \<noteq> Resolve k out"
  with Resolve show ?thesis by simp
qed (simp_all add: handleFetchPreview_def handlePreviewCache_def fetchAndPreview_start_def
       handleEditMapping_def handleConfigSelect_start_def handleSaveConfig_start_def
       openManageConfigsModal_def loadConfigsTable_start_def handleViewConfig_start_def
       handleDeleteConfig_start_def confirmDeleteConfig_start_def alert_def send_def Let_def
       split: option.splits list.splits)

lemma step_keeps_awaiting:
  assumes "\<forall>out. e \<noteq> Resolve k out" and "k \<in> fst ` set (awaiting st)"
  shows "k \<in> fst ` set (awaiting (step e st))"
proof (cases e)
  case (Resolve k' out)
  with assms(1) have ne: "k \<noteq> k'" by auto
  show ?thesis
  proof (cases "k' \<in> fst ` set (awaiting st)")
    case True
    obtain ws where "awaiting (resume k' out (st\<lparr>awaiting := forget k' (awaiting st)\<rparr>))
                       = forget k' (awaiting st) @ ws"
      using resume_awaiting[of k' out "st\<lparr>awaiting := forget k' (awaiting st)\<rparr>"] by auto
    moreover from ne assms(2) have "k \<in> fst ` set (forget k' (awaiting st))"
      by (simp add: forget_other)
    ultimately show ?thesis using True Resolve by (simp add: image_Un)
  next
    case False
    with Resolve assms(2) show ?thesis by simp
  qed
next
  case (Click_btnFetchPreview v i)
  then have "\<forall>k out. e \<noteq> Resolve k out" by simp
  from click_awaiting[OF this, of st] assms(2) show ?thesis by auto
next
  case (Click_btnPreviewCache i)
  then have "\<forall>k out. e \<noteq> Resolve k out" by simp
  from click_awaiting[OF this, of st] assms(2) show ?thesis by auto
next
  case Click_btnEditMapping
  then have "\<forall>k out. e \<noteq> Resolve k out" by simp
  from click_awaiting[OF this, of st] assms(2) show ?thesis by auto
next
  case (Click_btnSaveMapping es)
  then have "\<forall>k out. e \<noteq> Resolve k out" by simp
  from click_awaiting[OF this, of st] assms(2) show ?thesis by auto
next
  case (Click_btnConfirmImport p s a)
  then have "\<forall>k out. e \<noteq> Resolve k out" by simp
  from click_awaiting[OF this, of st] assms(2) show ?thesis by auto
next
  case (Change_savedConfigSelect i)
  then have "\<forall>k out. e \<noteq> Resolve k out" by simp
  from click_awaiting[OF this, of st] assms(2) show ?thesis by auto
next
  case (Click_btnSaveConfig i n)
  then have "\<forall>k out. e \<noteq> Resolve k out" by simp
  from click_awaiting[OF this, of st] assms(2) show ?thesis by auto
next
  case Click_btnManageConfigs
  then have "\<forall>k out. e \<noteq> Resolve k out" by simp
  from click_awaiting[OF this, of st] assms(2) show ?thesis by auto
next
  case (Click_viewConfig i)
  then have "\<forall>k out. e \<noteq> Resolve k out" by simp
  from click_awaiting[OF this, of st] assms(2) show ?thesis by auto
next
  case (Click_deleteConfig i)
  then have "\<forall>k out. e \<noteq> Resolve k out" by simp
  from click_awaiting[OF this, of st] assms(2) show ?thesis by auto
next
  case Click_btnConfirmDelete
  then have "\<forall>k out. e \<noteq> Resolve k out" by simp
  from click_awaiting[OF this, of st] assms(2) show ?thesis by auto
qed









section \<open>Properties of the two-phase delete\<close>

lemma delete_calls_append [simp]:
  "delete_calls (rs @ rs') = delete_calls rs @ delete_calls rs'"
  by (simp add: delete_calls_def)

lemma delete_calls_single [simp]:
  "delete_calls [DeleteConfig i] = [i]"
  "delete_calls [PostImport b] = []"
  "delete_calls [PostPreview fd] = []"
  "delete_calls [GetConfigs] = []"
  "delete_calls [GetConfig i] = []"
  "delete_calls [PostConfig d] = []"
  by (simp_all add: delete_calls_def)

lemma resume_delete_calls:
  "delete_calls (sent (resume k out st)) = delete_calls (sent st)"
  by (cases k)
     (simp_all add: fetchAndPreview_resume_def preview_catch_def displayPreview_def
        handleConfirmImport_resume_def import_finally_def
        loadSavedConfigs_resume_def loadConfigsTable_resume_def handleConfigSelect_resume_def
        handleSaveConfig_resume_def handleViewConfig_resume_def handleDeleteConfig_resume_def
        confirmDeleteConfig_deleted_def confirmDeleteConfig_tableLoaded_def
        confirmDeleteConfig_listLoaded_def delete_finally_def loadSavedConfigs_start_def
        loadConfigsTable_start_def alert_def send_def Let_def
        split: outcome.splits option.splits)

lemma step_delete_calls:
  "e \<noteq> Click_btnConfirmDelete \<Longrightarrow> delete_calls (sent (step e st)) = delete_calls (sent st)"
proof (cases e)
  case (Resolve k out)
  then show ?thesis
    using resume_delete_calls[of k out "st\<lparr>awaiting := forget k (awaiting st)\<rparr>"] by simp
next
  case (Click_btnSaveMapping entries)
  then show ?thesis
    by (simp add: handleSaveMapping_def reprocessPreviewWithMapping_def displayPreview_frame Let_def
          split: option.splits)
next
  case (Click_btnConfirmImport p s a)
  then show ?thesis
    by (simp add: handleConfirmImport_start_def alert_def send_def Let_def split: option.splits)
qed (simp_all add: handleFetchPreview_def handlePreviewCache_def fetchAndPreview_start_def
       handleEditMapping_def handleConfigSelect_start_def handleSaveConfig_start_def
       openManageConfigsModal_def loadConfigsTable_start_def handleViewConfig_start_def
       handleDeleteConfig_start_def alert_def send_def Let_def
       split: option.splits list.splits)

lemma resume_delete_disabled:
  "k \<noteq> K_confirmDelete_deleted \<Longrightarrow> k \<noteq> K_confirmDelete_listLoaded \<Longrightarrow>
   btnConfirmDelete_disabled (resume k out st) = btnConfirmDelete_disabled st"
  by (cases k)
     (simp_all add: fetchAndPreview_resume_def preview_catch_def displayPreview_def
        handleConfirmImport_resume_def import_finally_def
        loadSavedConfigs_resume_def loadConfigsTable_resume_def handleConfigSelect_resume_def
        handleSaveConfig_resume_def handleViewConfig_resume_def handleDeleteConfig_resume_def
        confirmDeleteConfig_tableLoaded_def loadSavedConfigs_start_def
        loadConfigsTable_start_def alert_def send_def Let_def
        split: outcome.splits option.splits)

lemma step_delete_disabled:
  "\<not> delete_resolution e \<Longrightarrow> btnConfirmDelete_disabled st \<Longrightarrow>
   btnConfirmDelete_disabled (step e st)"
proof (cases e)
  case (Resolve k out)
  assume "\<not> delete_resolution e"
  with Resolve have "k \<noteq> K_confirmDelete_deleted" "k \<noteq> K_confirmDelete_listLoaded" by auto
  moreover assume "btnConfirmDelete_disabled st"
  ultimately show ?thesis
    using Resolve resume_delete_disabled[of k out "st\<lparr>awaiting := forget k (awaiting st)\<rparr>"]
    by simp
next
  case (Click_btnSaveMapping entries)
  assume "btnConfirmDelete_disabled st"
  then show ?thesis using Click_btnSaveMapping
    by (simp add: handleSaveMapping_def reprocessPreviewWithMapping_def displayPreview_frame Let_def
          split: option.splits)
next
  case (Click_btnConfirmImport p s a)
  assume "btnConfirmDelete_disabled st"
  then show ?thesis using Click_btnConfirmImport
    by (simp add: handleConfirmImport_start_def alert_def send_def Let_def split: option.splits)
qed (simp_all add: handleFetchPreview_def handlePreviewCache_def fetchAndPreview_start_def
       handleEditMapping_def handleConfigSelect_start_def handleSaveConfig_start_def
       openManageConfigsModal_def loadConfigsTable_start_def handleViewConfig_start_def
       handleDeleteConfig_start_def alert_def send_def Let_def
       split: option.splits list.splits)

lemma backend_get_found:
  "find (\<lambda>c. cfg_id c = i) store = Some X \<Longrightarrow>
   backend_get store i = Reply True (empty_body\<lparr>res_success := True, res_config := Some X\<rparr>) \<and>
   cfg_id X = i \<and> X \<in> set store"
proof -
  assume f: "find (\<lambda>c. cfg_id c = i) store = Some X"
  then have "backend_get store i = Reply True (empty_body\<lparr>res_success := True, res_config := Some X\<rparr>)"
    by (simp add: backend_get_def)
  moreover from f have "cfg_id X = i \<and> X \<in> set store"
    by (auto simp: find_Some_iff)
  ultimately show ?thesis by simp
qed

lemma backend_delete_found:
  "X \<in> set store \<Longrightarrow>
   backend_delete store (cfg_id X) =
     (filter (\<lambda>c. cfg_id c \<noteq> cfg_id X) store, Reply True (empty_body\<lparr>res_success := True\<rparr>))"
  by (simp add: backend_delete_def)

lemma serve_phase1:
  assumes "awaiting s = []"
      and "backend_get store i = Reply True (empty_body\<lparr>res_success := True, res_config := Some X\<rparr>)"
  shows "fst (serve (store, step (Click_deleteConfig i) s)) = store \<and>
         sent (snd (serve (store, step (Click_deleteConfig i) s))) = sent s @ [GetConfig i] \<and>
         awaiting (snd (serve (store, step (Click_deleteConfig i) s))) = [] \<and>
         configToDelete (snd (serve (store, step (Click_deleteConfig i) s))) = Some X \<and>
         deleteConfigShown (snd (serve (store, step (Click_deleteConfig i) s))) = Some X \<and>
         deleteConfigModal_shown (snd (serve (store, step (Click_deleteConfig i) s))) \<and>
         btnConfirmDelete_disabled (snd (serve (store, step (Click_deleteConfig i) s)))
           = btnConfirmDelete_disabled s \<and>
         config (snd (serve (store, step (Click_deleteConfig i) s))) = config s"
  using assms
  by (simp add: serve_def handleDeleteConfig_start_def handleDeleteConfig_resume_def send_def
        empty_body_def)

lemma confirm_click:
  assumes "configToDelete s = Some X" and "\<not> btnConfirmDelete_disabled s" and "awaiting s = []"
  shows "sent (step Click_btnConfirmDelete s) = sent s @ [DeleteConfig (cfg_id X)] \<and>
         awaiting (step Click_btnConfirmDelete s) = [(K_confirmDelete_deleted, DeleteConfig (cfg_id X))] \<and>
         btnConfirmDelete_disabled (step Click_btnConfirmDelete s) \<and>
         configToDelete (step Click_btnConfirmDelete s) = Some X \<and>
         config (step Click_btnConfirmDelete s) = config s \<and>
         step Click_btnConfirmDelete (step Click_btnConfirmDelete s) = step Click_btnConfirmDelete s"
  using assms by (simp add: confirmDeleteConfig_start_def send_def)

lemma serve_delete:
  assumes "awaiting s = [(K_confirmDelete_deleted, DeleteConfig (cfg_id X))]"
      and "X \<in> set store" and "configToDelete s = Some X"
  shows "fst (serve (store, s)) = filter (\<lambda>c. cfg_id c \<noteq> cfg_id X) store \<and>
         sent (snd (serve (store, s))) = sent s @ [GetConfigs] \<and>
         awaiting (snd (serve (store, s))) = [(K_confirmDelete_tableLoaded, GetConfigs)] \<and>
         alerts (snd (serve (store, s))) = alerts s @ [ConfigDeleted (config_name X)] \<and>
         \<not> deleteConfigModal_shown (snd (serve (store, s))) \<and>
         configsTable (snd (serve (store, s))) = TableLoading \<and>
         btnConfirmDelete_disabled (snd (serve (store, s))) = btnConfirmDelete_disabled s \<and>
         configToDelete (snd (serve (store, s))) = Some X \<and>
         config (snd (serve (store, s))) = config s"
  using assms
  by (simp add: serve_def backend_delete_found confirmDeleteConfig_deleted_def
        loadConfigsTable_start_def alert_def send_def empty_body_def)

lemma serve_table:
  assumes "awaiting s = [(K_confirmDelete_tableLoaded, GetConfigs)]"
  shows "fst (serve (store, s)) = store \<and>
         sent (snd (serve (store, s))) = sent s @ [GetConfigs] \<and>
         awaiting (snd (serve (store, s))) = [(K_confirmDelete_listLoaded, GetConfigs)] \<and>
         configsTable (snd (serve (store, s))) =
           (if filter (configFilter (moduleType (config s))) store = [] then TableEmpty
            else TableRows (filter (configFilter (moduleType (config s))) store)) \<and>
         btnConfirmDelete_disabled (snd (serve (store, s))) = btnConfirmDelete_disabled s \<and>
         configToDelete (snd (serve (store, s))) = configToDelete s \<and>
         config (snd (serve (store, s))) = config s"
  using assms
  by (simp add: serve_def backend_list_def confirmDeleteConfig_tableLoaded_def
        loadConfigsTable_resume_def loadSavedConfigs_start_def send_def empty_body_def Let_def)

lemma serve_list:
  assumes "awaiting s = [(K_confirmDelete_listLoaded, GetConfigs)]"
  shows "fst (serve (store, s)) = store \<and>
         sent (snd (serve (store, s))) = sent s \<and>
         awaiting (snd (serve (store, s))) = [] \<and>
         allConfigs (snd (serve (store, s))) = filter (configFilter (moduleType (config s))) store \<and>
         configsTable (snd (serve (store, s))) = configsTable s \<and>
         \<not> btnConfirmDelete_disabled (snd (serve (store, s))) \<and>
         configToDelete (snd (serve (store, s))) = None"
  using assms
  by (simp add: serve_def backend_list_def confirmDeleteConfig_listLoaded_def
        loadSavedConfigs_resume_def delete_finally_def empty_body_def)

text \<open>
  Claim C8. The backend holds the record \<open>X\<close> under the id \<open>i\<close>, and nothing else is
  waiting for the network. The backend answers each request that the handlers send, and
  the answer resumes the continuation that waits for it. Phase 1 (\<open>handleDeleteConfig(i)\<close>
  and the answer to its GET) deletes nothing: it sends only the GET for \<open>i\<close>, stores
  \<open>X\<close> as the pending record and shows it in the confirmation modal. The click on the
  confirm button sends \<open>DELETE /api/configs/X.id\<close> and disables the button, and a further
  click changes nothing. The answer to the DELETE (the backend has removed the record)
  makes the handler hide the modal and request the table reload; the answer to that
  makes it request the reload of the dropdown list; the answer to that ends the
  function, which clears the pending record and enables the button. The button is
  disabled from the DELETE call to that end. One DELETE call was sent, and the reloaded
  list and table, the filter of what the backend holds after the delete, have no
  configuration with the id of \<open>X\<close>. No event other than the click on the confirm button
  sends a DELETE call, and no event other than an end of \<open>confirmDeleteConfig\<close> enables
  a disabled button.
\<close>

theorem two_phase_delete:
  assumes "find (\<lambda>c. cfg_id c = i) store = Some X" and "\<not> btnConfirmDelete_disabled st"
      and "awaiting st = []"
  shows "(let p1 = serve (store, step (Click_deleteConfig i) st);
              s2 = step Click_btnConfirmDelete (snd p1);
              p3 = serve (fst p1, s2);
              p4 = serve p3;
              p5 = serve p4
          in fst p1 = store \<and> sent (snd p1) = sent st @ [GetConfig i] \<and>
             configToDelete (snd p1) = Some X \<and> deleteConfigShown (snd p1) = Some X \<and>
             deleteConfigModal_shown (snd p1) \<and>
             sent s2 = sent st @ [GetConfig i, DeleteConfig (cfg_id X)] \<and>
             btnConfirmDelete_disabled s2 \<and> step Click_btnConfirmDelete s2 = s2 \<and>
             fst p3 = filter (\<lambda>c. cfg_id c \<noteq> cfg_id X) store \<and>
             sent (snd p3) = sent st @ [GetConfig i, DeleteConfig (cfg_id X), GetConfigs] \<and>
             \<not> deleteConfigModal_shown (snd p3) \<and> btnConfirmDelete_disabled (snd p3) \<and>
             sent (snd p4) = sent st @ [GetConfig i, DeleteConfig (cfg_id X), GetConfigs, GetConfigs] \<and>
             btnConfirmDelete_disabled (snd p4) \<and>
             fst p5 = filter (\<lambda>c. cfg_id c \<noteq> cfg_id X) store \<and>
             sent (snd p5) = sent st @ [GetConfig i, DeleteConfig (cfg_id X), GetConfigs, GetConfigs] \<and>
             awaiting (snd p5) = [] \<and>
             \<not> btnConfirmDelete_disabled (snd p5) \<and> configToDelete (snd p5) = None \<and>
             allConfigs (snd p5) = filter (configFilter (moduleType (config st))) (fst p5) \<and>
             (\<forall>c \<in> set (allConfigs (snd p5)). cfg_id c \<noteq> cfg_id X) \<and>
             configsTable (snd p5) =
               (if allConfigs (snd p5) = [] then TableEmpty else TableRows (allConfigs (snd p5)))) \<and>
         (e \<noteq> Click_btnConfirmDelete \<longrightarrow> delete_calls (sent (step e s)) = delete_calls (sent s)) \<and>
         (\<not> delete_resolution e \<longrightarrow> btnConfirmDelete_disabled s \<longrightarrow> btnConfirmDelete_disabled (step e s))"
proof -
  from backend_get_found[OF assms(1)]
  have get: "backend_get store i = Reply True (empty_body\<lparr>res_success := True, res_config := Some X\<rparr>)"
    and X: "X \<in> set store" by simp_all
  define store' where "store' = filter (\<lambda>c. cfg_id c \<noteq> cfg_id X) store"
  define p1 where "p1 = serve (store, step (Click_deleteConfig i) st)"
  define s2 where "s2 = step Click_btnConfirmDelete (snd p1)"
  define p3 where "p3 = serve (fst p1, s2)"
  define p4 where "p4 = serve p3"
  define p5 where "p5 = serve p4"
  note f1 = serve_phase1[OF assms(3) get, folded p1_def]
  from f1 assms(2) have pre2: "configToDelete (snd p1) = Some X"
    "\<not> btnConfirmDelete_disabled (snd p1)" "awaiting (snd p1) = []" by simp_all
  note f2 = confirm_click[OF pre2, folded s2_def]
  from f1 have st1: "fst p1 = store" by simp
  from f2 have pre3: "awaiting s2 = [(K_confirmDelete_deleted, DeleteConfig (cfg_id X))]"
    "configToDelete s2 = Some X" by simp_all
  have p3: "p3 = serve (store, s2)" by (simp only: p3_def st1)
  note f3 = serve_delete[OF pre3(1) X pre3(2), folded p3 store'_def]
  from f3 have e3: "p3 = (store', snd p3)" by (simp add: prod_eq_iff)
  from f3 have pre4: "awaiting (snd p3) = [(K_confirmDelete_tableLoaded, GetConfigs)]" by simp
  have p4: "p4 = serve (store', snd p3)" using e3 by (simp add: p4_def)
  note f4 = serve_table[OF pre4, of store', folded p4]
  from f4 have e4: "p4 = (store', snd p4)" by (simp add: prod_eq_iff)
  from f4 have pre5: "awaiting (snd p4) = [(K_confirmDelete_listLoaded, GetConfigs)]" by simp
  have p5: "p5 = serve (store', snd p4)" using e4 by (simp add: p5_def)
  note f5 = serve_list[OF pre5, of store', folded p5]
  have c3: "config (snd p3) = config st" using f3 f2 f1 by simp
  have c4: "config (snd p4) = config st" using f4 c3 by simp
  have a5: "allConfigs (snd p5) = filter (configFilter (moduleType (config st))) store'"
    using f5 c4 by simp
  have t5: "configsTable (snd p5) =
               (if allConfigs (snd p5) = [] then TableEmpty else TableRows (allConfigs (snd p5)))"
    using f5 f4 c3 a5 by simp
  have absent: "\<forall>c \<in> set (allConfigs (snd p5)). cfg_id c \<noteq> cfg_id X"
    unfolding a5 store'_def by simp
  have g1: "fst p1 = store \<and> sent (snd p1) = sent st @ [GetConfig i] \<and>
             configToDelete (snd p1) = Some X \<and> deleteConfigShown (snd p1) = Some X \<and>
             deleteConfigModal_shown (snd p1)"
    using f1 by simp
  have g2: "sent s2 = sent st @ [GetConfig i, DeleteConfig (cfg_id X)] \<and>
             btnConfirmDelete_disabled s2 \<and> step Click_btnConfirmDelete s2 = s2"
    using f2 f1 by simp
  have g3: "fst p3 = store' \<and>
             sent (snd p3) = sent st @ [GetConfig i, DeleteConfig (cfg_id X), GetConfigs] \<and>
             \<not> deleteConfigModal_shown (snd p3) \<and> btnConfirmDelete_disabled (snd p3)"
    using f3 g2 by simp
  have g4: "sent (snd p4) = sent st @ [GetConfig i, DeleteConfig (cfg_id X), GetConfigs, GetConfigs] \<and>
             btnConfirmDelete_disabled (snd p4)"
    using f4 g3 by simp
  have g5: "fst p5 = store' \<and>
             sent (snd p5) = sent st @ [GetConfig i, DeleteConfig (cfg_id X), GetConfigs, GetConfigs] \<and>
             awaiting (snd p5) = [] \<and>
             \<not> btnConfirmDelete_disabled (snd p5) \<and> configToDelete (snd p5) = None"
    using f5 g4 by simp
  have a5': "allConfigs (snd p5) = filter (configFilter (moduleType (config st))) (fst p5)"
    using a5 g5 by simp
  have fr1: "e \<noteq> Click_btnConfirmDelete \<longrightarrow> delete_calls (sent (step e s)) = delete_calls (sent s)"
    by (simp add: step_delete_calls)
  have fr2: "\<not> delete_resolution e \<longrightarrow> btnConfirmDelete_disabled s \<longrightarrow> btnConfirmDelete_disabled (step e s)"
    by (simp add: step_delete_disabled)
  from g1 g2 g3 g4 g5 a5' absent t5 fr1 fr2 show ?thesis
    unfolding Let_def p1_def[symmetric] s2_def[symmetric] p3_def[symmetric] p4_def[symmetric]
      p5_def[symmetric] store'_def[symmetric]
    by blast
qed

text \<open>
  Two saved configurations; the page has loaded its list. The operator deletes the
  second one and confirms: the reloaded list holds the first one only.
\<close>

theorem two_phase_delete_witness:
  "allConfigs (snd (serve (serve (serve
     (fst (serve
        ([\<lparr>cfg_id = 1, module_type = Some ''orders'', config_name = ''a'', cfg_platform = None,
           cfg_shop_name = None, cfg_api_url = ''u'', cfg_data_path = '''', cfg_api_key = ''''\<rparr>,
          \<lparr>cfg_id = 2, module_type = Some ''orders'', config_name = ''b'', cfg_platform = None,
           cfg_shop_name = None, cfg_api_url = ''v'', cfg_data_path = '''', cfg_api_key = ''''\<rparr>],
         step (Click_deleteConfig 2)
           (snd (serve
              ([\<lparr>cfg_id = 1, module_type = Some ''orders'', config_name = ''a'', cfg_platform = None,
                 cfg_shop_name = None, cfg_api_url = ''u'', cfg_data_path = '''', cfg_api_key = ''''\<rparr>,
                \<lparr>cfg_id = 2, module_type = Some ''orders'', config_name = ''b'', cfg_platform = None,
                 cfg_shop_name = None, cfg_api_url = ''v'', cfg_data_path = '''', cfg_api_key = ''''\<rparr>],
               init DEFAULT_CONFIG True True))))),
      step Click_btnConfirmDelete
        (snd (serve
           ([\<lparr>cfg_id = 1, module_type = Some ''orders'', config_name = ''a'', cfg_platform = None,
              cfg_shop_name = None, cfg_api_url = ''u'', cfg_data_path = '''', cfg_api_key = ''''\<rparr>,
             \<lparr>cfg_id = 2, module_type = Some ''orders'', config_name = ''b'', cfg_platform = None,
              cfg_shop_name = None, cfg_api_url = ''v'', cfg_data_path = '''', cfg_api_key = ''''\<rparr>],
            step (Click_deleteConfig 2)
              (snd (serve
                 ([\<lparr>cfg_id = 1, module_type = Some ''orders'', config_name = ''a'', cfg_platform = None,
                    cfg_shop_name = None, cfg_api_url = ''u'', cfg_data_path = '''', cfg_api_key = ''''\<rparr>,
                   \<lparr>cfg_id = 2, module_type = Some ''orders'', config_name = ''b'', cfg_platform = None,
                    cfg_shop_name = None, cfg_api_url = ''v'', cfg_data_path = '''', cfg_api_key = ''''\<rparr>],
                  init DEFAULT_CONFIG True True)))))))))))
   = [\<lparr>cfg_id = 1, module_type = Some ''orders'', config_name = ''a'', cfg_platform = None,
       cfg_shop_name = None, cfg_api_url = ''u'', cfg_data_path = '''', cfg_api_key = ''''\<rparr>]"
proof -
  let ?c1 = "\<lparr>cfg_id = 1, module_type = Some ''orders'', config_name = ''a'', cfg_platform = None,
           cfg_shop_name = None, cfg_api_url = ''u'', cfg_data_path = '''', cfg_api_key = ''''\<rparr>"
  let ?c2 = "\<lparr>cfg_id = 2, module_type = Some ''orders'', config_name = ''b'', cfg_platform = None,
           cfg_shop_name = None, cfg_api_url = ''v'', cfg_data_path = '''', cfg_api_key = ''''\<rparr>"
  define st where "st = snd (serve ([?c1, ?c2], init DEFAULT_CONFIG True True))"
  define p5 where "p5 = serve (serve (serve
     (fst (serve ([?c1, ?c2], step (Click_deleteConfig 2) st)),
      step Click_btnConfirmDelete (snd (serve ([?c1, ?c2], step (Click_deleteConfig 2) st))))))"
  have h1: "find (\<lambda>c. cfg_id c = 2) [?c1, ?c2] = Some ?c2" by simp
  have h2: "\<not> btnConfirmDelete_disabled st"
    by (simp add: st_def serve_def init_def loadSavedConfigs_start_def send_def
          loadSavedConfigs_resume_def backend_list_def empty_body_def)
  have h3: "awaiting st = []"
    by (simp add: st_def serve_def init_def loadSavedConfigs_start_def send_def
          loadSavedConfigs_resume_def backend_list_def empty_body_def)
  have mt: "moduleType (config st) = ''orders''"
    by (simp add: st_def serve_def init_def DEFAULT_CONFIG_def loadSavedConfigs_start_def send_def
          loadSavedConfigs_resume_def backend_list_def empty_body_def)
  from two_phase_delete[OF h1 h2 h3, of "Click_deleteConfig 2" st]
  have A: "allConfigs (snd p5) = filter (configFilter (moduleType (config st))) (fst p5)"
    and B: "fst p5 = filter (\<lambda>c. cfg_id c \<noteq> cfg_id ?c2) [?c1, ?c2]"
    unfolding Let_def p5_def by blast+
  have "allConfigs (snd p5) = [?c1]"
    unfolding A B mt by (simp add: configFilter_def)
  then show ?thesis unfolding p5_def st_def .
qed

lemma run_append: "run (evs @ evs') st = run evs' (run evs st)"
  by (simp add: run_def)

lemma delete_continuation_iff:
  "delete_continuation e \<longleftrightarrow>
     (\<exists>out. e = Resolve K_confirmDelete_deleted out \<or> e = Resolve K_confirmDelete_tableLoaded out \<or>
            e = Resolve K_confirmDelete_listLoaded out)"
  by (cases e rule: delete_continuation.cases) auto

lemma delete_resolution_continuation: "delete_resolution e \<Longrightarrow> delete_continuation e"
  by (cases e rule: delete_resolution.cases) auto

lemma resume_pending_frame:
  "k \<noteq> K_confirmDelete_deleted \<Longrightarrow> k \<noteq> K_confirmDelete_listLoaded \<Longrightarrow>
   configToDelete st \<noteq> None \<Longrightarrow> configToDelete (resume k out st) \<noteq> None"
  by (cases k)
     (simp_all add: fetchAndPreview_resume_def preview_catch_def displayPreview_def
        handleConfirmImport_resume_def import_finally_def
        loadSavedConfigs_resume_def loadConfigsTable_resume_def handleConfigSelect_resume_def
        handleSaveConfig_resume_def handleViewConfig_resume_def handleDeleteConfig_resume_def
        confirmDeleteConfig_tableLoaded_def loadSavedConfigs_start_def
        loadConfigsTable_start_def alert_def send_def Let_def
        split: outcome.splits option.splits)

lemma step_pending_frame:
  "\<not> delete_resolution e \<Longrightarrow> btnConfirmDelete_disabled st \<Longrightarrow> configToDelete st \<noteq> None \<Longrightarrow>
   configToDelete (step e st) \<noteq> None \<and> delete_calls (sent (step e st)) = delete_calls (sent st)"
proof (cases e)
  case (Resolve k out)
  assume "\<not> delete_resolution e"
  with Resolve have "k \<noteq> K_confirmDelete_deleted" "k \<noteq> K_confirmDelete_listLoaded" by auto
  moreover assume "configToDelete st \<noteq> None"
  ultimately show ?thesis
    using Resolve resume_pending_frame[of k "st\<lparr>awaiting := forget k (awaiting st)\<rparr>" out]
      resume_delete_calls[of k out "st\<lparr>awaiting := forget k (awaiting st)\<rparr>"]
    by simp
next
  case (Click_btnSaveMapping entries)
  assume "configToDelete st \<noteq> None"
  then show ?thesis using Click_btnSaveMapping
    by (simp add: handleSaveMapping_def reprocessPreviewWithMapping_def displayPreview_frame Let_def
          split: option.splits)
next
  case (Click_btnConfirmImport p s a)
  assume "configToDelete st \<noteq> None"
  then show ?thesis using Click_btnConfirmImport
    by (simp add: handleConfirmImport_start_def alert_def send_def Let_def split: option.splits)
next
  case Click_btnConfirmDelete
  assume "btnConfirmDelete_disabled st" "configToDelete st \<noteq> None"
  then show ?thesis using Click_btnConfirmDelete by simp
qed (simp_all add: handleFetchPreview_def handlePreviewCache_def fetchAndPreview_start_def
       handleEditMapping_def handleConfigSelect_start_def handleSaveConfig_start_def
       openManageConfigsModal_def loadConfigsTable_start_def handleViewConfig_start_def
       handleDeleteConfig_start_def alert_def send_def Let_def
       split: option.splits list.splits)

lemma run_pending_frame:
  "\<forall>e \<in> set evs. \<not> delete_continuation e \<Longrightarrow> btnConfirmDelete_disabled st \<Longrightarrow>
   configToDelete st \<noteq> None \<Longrightarrow>
   k = K_confirmDelete_deleted \<or> k = K_confirmDelete_tableLoaded \<or> k = K_confirmDelete_listLoaded \<Longrightarrow>
   k \<in> fst ` set (awaiting st) \<Longrightarrow>
   btnConfirmDelete_disabled (run evs st) \<and> configToDelete (run evs st) \<noteq> None \<and>
   delete_calls (sent (run evs st)) = delete_calls (sent st) \<and>
   k \<in> fst ` set (awaiting (run evs st))"
proof (induction evs arbitrary: st)
  case Nil
  then show ?case by (simp add: run_def)
next
  case (Cons e evs)
  from Cons.prems have e: "\<not> delete_continuation e" and rest: "\<forall>e \<in> set evs. \<not> delete_continuation e"
    by simp_all
  from e have r: "\<not> delete_resolution e" using delete_resolution_continuation by blast
  from step_delete_disabled[OF r Cons.prems(2)] have d: "btnConfirmDelete_disabled (step e st)" .
  from step_pending_frame[OF r Cons.prems(2,3)]
  have p: "configToDelete (step e st) \<noteq> None"
    and c: "delete_calls (sent (step e st)) = delete_calls (sent st)" by simp_all
  from e Cons.prems(4) have "\<forall>out. e \<noteq> Resolve k out"
    by (auto simp: delete_continuation_iff)
  from step_keeps_awaiting[OF this Cons.prems(5)]
  have w: "k \<in> fst ` set (awaiting (step e st))" .
  from Cons.IH[OF rest d p Cons.prems(4) w] c show ?case by (simp add: run_def)
qed

lemma confirmDeleteConfig_start_no_pending:
  "configToDelete st = None \<Longrightarrow> confirmDeleteConfig_start st = alert ConfigToDeleteMissing st"
  by (simp add: confirmDeleteConfig_start_def)

lemma confirm_click_pending:
  assumes "configToDelete st = Some c" and "\<not> btnConfirmDelete_disabled st"
  shows "btnConfirmDelete_disabled (step Click_btnConfirmDelete st) \<and>
         configToDelete (step Click_btnConfirmDelete st) = Some c \<and>
         delete_calls (sent (step Click_btnConfirmDelete st)) = delete_calls (sent st) @ [cfg_id c] \<and>
         K_confirmDelete_deleted \<in> fst ` set (awaiting (step Click_btnConfirmDelete st))"
  using assms by (simp add: confirmDeleteConfig_start_def send_def)

lemma resolve_deleted_success:
  assumes "res_success result" and "configToDelete st \<noteq> None" and "btnConfirmDelete_disabled st"
      and "K_confirmDelete_deleted \<in> fst ` set (awaiting st)"
  shows "btnConfirmDelete_disabled (step (Resolve K_confirmDelete_deleted (Reply ok result)) st) \<and>
         configToDelete (step (Resolve K_confirmDelete_deleted (Reply ok result)) st) \<noteq> None \<and>
         delete_calls (sent (step (Resolve K_confirmDelete_deleted (Reply ok result)) st))
           = delete_calls (sent st) \<and>
         K_confirmDelete_tableLoaded
           \<in> fst ` set (awaiting (step (Resolve K_confirmDelete_deleted (Reply ok result)) st))"
  using assms
  by (auto simp: confirmDeleteConfig_deleted_def loadConfigsTable_start_def alert_def send_def)

lemma resolve_deleted_refused:
  assumes "\<not> res_success result" and "K_confirmDelete_deleted \<in> fst ` set (awaiting st)"
  shows "\<not> btnConfirmDelete_disabled (step (Resolve K_confirmDelete_deleted (Reply ok result)) st) \<and>
         configToDelete (step (Resolve K_confirmDelete_deleted (Reply ok result)) st)
           = configToDelete st \<and>
         sent (step (Resolve K_confirmDelete_deleted (Reply ok result)) st) = sent st"
  using assms
  by (simp add: confirmDeleteConfig_deleted_def delete_finally_def alert_def)

lemma resolve_tableLoaded:
  assumes "K_confirmDelete_tableLoaded \<in> fst ` set (awaiting st)"
  shows "btnConfirmDelete_disabled (step (Resolve K_confirmDelete_tableLoaded out) st)
           = btnConfirmDelete_disabled st \<and>
         configToDelete (step (Resolve K_confirmDelete_tableLoaded out) st) = configToDelete st \<and>
         delete_calls (sent (step (Resolve K_confirmDelete_tableLoaded out) st)) = delete_calls (sent st) \<and>
         K_confirmDelete_listLoaded
           \<in> fst ` set (awaiting (step (Resolve K_confirmDelete_tableLoaded out) st))"
  using assms
  by (simp add: confirmDeleteConfig_tableLoaded_def loadConfigsTable_resume_def
        loadSavedConfigs_start_def send_def Let_def split: outcome.splits option.splits)

lemma resolve_listLoaded:
  assumes "K_confirmDelete_listLoaded \<in> fst ` set (awaiting st)"
  shows "configToDelete (step (Resolve K_confirmDelete_listLoaded out) st) = None \<and>
         \<not> btnConfirmDelete_disabled (step (Resolve K_confirmDelete_listLoaded out) st) \<and>
         sent (step (Resolve K_confirmDelete_listLoaded out) st) = sent st"
  using assms
  by (simp add: confirmDeleteConfig_listLoaded_def loadSavedConfigs_resume_def delete_finally_def
        split: outcome.splits option.splits)

text \<open>
  Claim C10. With no pending record, a click on the confirm button of the delete modal
  alerts that there is nothing to delete and sends nothing. With a pending record, the
  confirmed click sends its DELETE call. When the response reports success, the function
  goes on to the two reloads and then clears the pending record: after the three
  responses (with any other events in between that are not responses to
  \<open>confirmDeleteConfig\<close>) the pending record is \<open>null\<close>, the button is enabled, the one
  DELETE call has been sent, and a further click on the confirm button sends nothing.
  The clearing belongs to the successful path: when the response refuses the delete,
  the function ends at once, the pending record stays and the button is enabled for
  another try.
\<close>

theorem confirm_delete_needs_pending_record:
  assumes "configToDelete st = Some c" and "\<not> btnConfirmDelete_disabled st"
      and "res_success result"
      and "\<forall>e \<in> set evs1. \<not> delete_continuation e"
      and "\<forall>e \<in> set evs2. \<not> delete_continuation e"
      and "\<forall>e \<in> set evs3. \<not> delete_continuation e"
  shows "(let st' = run ([Click_btnConfirmDelete] @ evs1 @
                         [Resolve K_confirmDelete_deleted (Reply ok result)] @ evs2 @
                         [Resolve K_confirmDelete_tableLoaded out1] @ evs3 @
                         [Resolve K_confirmDelete_listLoaded out2]) st
          in configToDelete st' = None \<and> \<not> btnConfirmDelete_disabled st' \<and>
             delete_calls (sent st') = delete_calls (sent st) @ [cfg_id c] \<and>
             step Click_btnConfirmDelete st' = alert ConfigToDeleteMissing st' \<and>
             sent (step Click_btnConfirmDelete st') = sent st') \<and>
         (configToDelete s = None \<longrightarrow> sent (step Click_btnConfirmDelete s) = sent s) \<and>
         (configToDelete s = None \<longrightarrow> \<not> btnConfirmDelete_disabled s \<longrightarrow>
            step Click_btnConfirmDelete s = alert ConfigToDeleteMissing s) \<and>
         (\<not> res_success refused \<longrightarrow>
            configToDelete (run [Click_btnConfirmDelete,
                                 Resolve K_confirmDelete_deleted (Reply ok refused)] st) = Some c \<and>
            \<not> btnConfirmDelete_disabled (run [Click_btnConfirmDelete,
                                 Resolve K_confirmDelete_deleted (Reply ok refused)] st))"
proof -
  define s1 where "s1 = step Click_btnConfirmDelete st"
  define s2 where "s2 = run evs1 s1"
  define s3 where "s3 = step (Resolve K_confirmDelete_deleted (Reply ok result)) s2"
  define s4 where "s4 = run evs2 s3"
  define s5 where "s5 = step (Resolve K_confirmDelete_tableLoaded out1) s4"
  define s6 where "s6 = run evs3 s5"
  define s7 where "s7 = step (Resolve K_confirmDelete_listLoaded out2) s6"
  have unfold: "run ([Click_btnConfirmDelete] @ evs1 @
                         [Resolve K_confirmDelete_deleted (Reply ok result)] @ evs2 @
                         [Resolve K_confirmDelete_tableLoaded out1] @ evs3 @
                         [Resolve K_confirmDelete_listLoaded out2]) st = s7"
    unfolding s7_def s6_def s5_def s4_def s3_def s2_def s1_def by (simp add: run_def)
  from confirm_click_pending[OF assms(1,2), folded s1_def]
  have i1: "btnConfirmDelete_disabled s1" "configToDelete s1 \<noteq> None"
    "delete_calls (sent s1) = delete_calls (sent st) @ [cfg_id c]"
    "K_confirmDelete_deleted \<in> fst ` set (awaiting s1)"
    by simp_all
  from run_pending_frame[OF assms(4) i1(1,2) _ i1(4), folded s2_def] i1(3)
  have i2: "btnConfirmDelete_disabled s2" "configToDelete s2 \<noteq> None"
    "delete_calls (sent s2) = delete_calls (sent st) @ [cfg_id c]"
    "K_confirmDelete_deleted \<in> fst ` set (awaiting s2)"
    by simp_all
  from resolve_deleted_success[OF assms(3) i2(2) i2(1) i2(4), of ok, folded s3_def] i2(3)
  have i3: "btnConfirmDelete_disabled s3" "configToDelete s3 \<noteq> None"
    "delete_calls (sent s3) = delete_calls (sent st) @ [cfg_id c]"
    "K_confirmDelete_tableLoaded \<in> fst ` set (awaiting s3)"
    by simp_all
  from run_pending_frame[OF assms(5) i3(1,2) _ i3(4), folded s4_def] i3(3)
  have i4: "btnConfirmDelete_disabled s4" "configToDelete s4 \<noteq> None"
    "delete_calls (sent s4) = delete_calls (sent st) @ [cfg_id c]"
    "K_confirmDelete_tableLoaded \<in> fst ` set (awaiting s4)"
    by simp_all
  from resolve_tableLoaded[OF i4(4), of out1, folded s5_def] i4
  have i5: "btnConfirmDelete_disabled s5" "configToDelete s5 \<noteq> None"
    "delete_calls (sent s5) = delete_calls (sent st) @ [cfg_id c]"
    "K_confirmDelete_listLoaded \<in> fst ` set (awaiting s5)"
    by simp_all
  from run_pending_frame[OF assms(6) i5(1,2) _ i5(4), folded s6_def] i5(3)
  have i6: "delete_calls (sent s6) = delete_calls (sent st) @ [cfg_id c]"
    "K_confirmDelete_listLoaded \<in> fst ` set (awaiting s6)"
    by simp_all
  from resolve_listLoaded[OF i6(2), of out2, folded s7_def] i6(1)
  have i7: "configToDelete s7 = None" "\<not> btnConfirmDelete_disabled s7"
    "delete_calls (sent s7) = delete_calls (sent st) @ [cfg_id c]"
    by simp_all
  from i7(1,2) have again: "step Click_btnConfirmDelete s7 = alert ConfigToDeleteMissing s7"
    by (simp add: confirmDeleteConfig_start_no_pending)
  then have again_sent: "sent (step Click_btnConfirmDelete s7) = sent s7"
    by (simp add: alert_def)
  have g1: "configToDelete s = None \<longrightarrow> sent (step Click_btnConfirmDelete s) = sent s"
    by (simp add: confirmDeleteConfig_start_no_pending alert_def)
  have g2: "configToDelete s = None \<longrightarrow> \<not> btnConfirmDelete_disabled s \<longrightarrow>
            step Click_btnConfirmDelete s = alert ConfigToDeleteMissing s"
    by (simp add: confirmDeleteConfig_start_no_pending)
  have g3: "\<not> res_success refused \<longrightarrow>
            configToDelete (run [Click_btnConfirmDelete,
                                 Resolve K_confirmDelete_deleted (Reply ok refused)] st) = Some c \<and>
            \<not> btnConfirmDelete_disabled (run [Click_btnConfirmDelete,
                                 Resolve K_confirmDelete_deleted (Reply ok refused)] st)"
  proof
    assume n: "\<not> res_success refused"
    have r: "run [Click_btnConfirmDelete, Resolve K_confirmDelete_deleted (Reply ok refused)] st
               = step (Resolve K_confirmDelete_deleted (Reply ok refused)) s1"
      unfolding s1_def by (simp add: run_def)
    from confirm_click_pending[OF assms(1,2), folded s1_def]
    have c1: "configToDelete s1 = Some c" by simp
    from resolve_deleted_refused[OF n i1(4), of ok] c1
    show "configToDelete (run [Click_btnConfirmDelete,
                                 Resolve K_confirmDelete_deleted (Reply ok refused)] st) = Some c \<and>
            \<not> btnConfirmDelete_disabled (run [Click_btnConfirmDelete,
                                 Resolve K_confirmDelete_deleted (Reply ok refused)] st)"
      unfolding r by simp
  qed
  from i7 again again_sent g1 g2 g3 show ?thesis unfolding unfold Let_def by blast
qed

text \<open>
  A pending record with id 2: two clicks on the confirm button, the successful delete
  and its reloads, and a third click. One DELETE call for id 2 has been sent.
\<close>

theorem confirm_delete_needs_pending_record_witness:
  "delete_calls (sent (run
     [Click_btnConfirmDelete, Click_btnConfirmDelete,
      Resolve K_confirmDelete_deleted (Reply True (empty_body\<lparr>res_success := True\<rparr>)),
      Resolve K_confirmDelete_tableLoaded (backend_list []),
      Resolve K_confirmDelete_listLoaded (backend_list []),
      Click_btnConfirmDelete]
     ((init DEFAULT_CONFIG True True)
        \<lparr>configToDelete := Some \<lparr>cfg_id = 2, module_type = Some ''orders'', config_name = ''b'',
            cfg_platform = None, cfg_shop_name = None, cfg_api_url = ''v'', cfg_data_path = '''',
            cfg_api_key = ''''\<rparr>\<rparr>))) = [2]"
proof -
  let ?c = "\<lparr>cfg_id = 2, module_type = Some ''orders'', config_name = ''b'',
            cfg_platform = None, cfg_shop_name = None, cfg_api_url = ''v'', cfg_data_path = '''',
            cfg_api_key = ''''\<rparr>"
  define st where "st = (init DEFAULT_CONFIG True True)\<lparr>configToDelete := Some ?c\<rparr>"
  let ?r = "empty_body\<lparr>res_success := True\<rparr>"
  define evs where "evs = [Click_btnConfirmDelete] @ [Click_btnConfirmDelete] @
                [Resolve K_confirmDelete_deleted (Reply True ?r)] @ [] @
                [Resolve K_confirmDelete_tableLoaded (backend_list [])] @ [] @
                [Resolve K_confirmDelete_listLoaded (backend_list [])]"
  have h1: "configToDelete st = Some ?c" by (simp add: st_def)
  have h2: "\<not> btnConfirmDelete_disabled st"
    by (simp add: st_def init_def loadSavedConfigs_start_def send_def)
  have h3: "res_success ?r" by simp
  have h4: "\<forall>e \<in> set [Click_btnConfirmDelete]. \<not> delete_continuation e" by simp
  have h5: "\<forall>e \<in> set ([]::event list). \<not> delete_continuation e" by simp
  have s0: "delete_calls (sent st) = []"
    by (simp add: st_def init_def loadSavedConfigs_start_def send_def delete_calls_def)
  have r: "run [Click_btnConfirmDelete, Click_btnConfirmDelete,
      Resolve K_confirmDelete_deleted (Reply True ?r),
      Resolve K_confirmDelete_tableLoaded (backend_list []),
      Resolve K_confirmDelete_listLoaded (backend_list []),
      Click_btnConfirmDelete] st = step Click_btnConfirmDelete (run evs st)"
    unfolding evs_def by (simp add: run_def)
  from confirm_delete_needs_pending_record[OF h1 h2 h3 h4 h5 h5,
      of True "backend_list []" "backend_list []" st ?r, folded evs_def]
  have "sent (step Click_btnConfirmDelete (run evs st)) = sent (run evs st)"
    and "delete_calls (sent (run evs st)) = delete_calls (sent st) @ [cfg_id ?c]"
    unfolding Let_def by blast+
  with s0 have d: "delete_calls (sent (step Click_btnConfirmDelete (run evs st))) = [2]" by simp
  have "delete_calls (sent (run [Click_btnConfirmDelete, Click_btnConfirmDelete,
      Resolve K_confirmDelete_deleted (Reply True ?r),
      Resolve K_confirmDelete_tableLoaded (backend_list []),
      Resolve K_confirmDelete_listLoaded (backend_list []),
      Click_btnConfirmDelete] st)) = [2]"
    by (simp only: r d)
  then show ?thesis unfolding st_def .
qed

end
